theory Spec2Isabelle
  imports Main
begin

section \<open>Python values, exceptions and builtins used by change.py\<close>

text \<open>
  Strings are lists of characters, a character being a code point below 256: ASCII,
  which the configuration keys and the keywords compared against consist of, and the
  rest of Latin-1. An exception is a
  value of \<open>py_exception\<close>, one constructor per Python class the program can meet,
  carrying the exception's argument. A computation that may raise returns
  \<open>py_exception + 'a\<close>, with \<open>Inl\<close> for the raised exception.
\<close>

datatype py_exception =
    NameError string
  | ValueError string
  | KeyError string
  | TypeError string
  | AttributeError string
  | ClientError string
  | WaiterError string
  | OtherException string

text \<open>
  The failure kinds of the specification's taxonomy, and the exception class of the
  source that stands for each: \<open>_get_env\<close> raises NameError for a missing key, the
  validators raise ValueError, the client raises ClientError, the waiter raises
  WaiterError, and subscripting a response raises KeyError (or TypeError when the
  subscripted value is not a dict).
\<close>

datatype failure_kind =
    MissingConfiguration
  | InvalidInput
  | RemoteServiceError
  | WaitTimeoutError
  | UnexpectedResponseShape
  | OtherFailure

fun kind_of :: "py_exception \<Rightarrow> failure_kind" where
  "kind_of (NameError m) = MissingConfiguration"
| "kind_of (ValueError m) = InvalidInput"
| "kind_of (ClientError m) = RemoteServiceError"
| "kind_of (WaiterError m) = WaitTimeoutError"
| "kind_of (KeyError k) = UnexpectedResponseShape"
| "kind_of (TypeError m) = UnexpectedResponseShape"
| "kind_of (AttributeError m) = OtherFailure"
| "kind_of (OtherException m) = OtherFailure"

text \<open>The values a dict of the program can hold: JSON-like data. A dict is an
  association list in insertion order, with at most one entry per key.\<close>

datatype json =
    JNull
  | JBool bool
  | JInt int
  | JStr string
  | JList "json list"
  | JObj "(string \<times> json) list"

text \<open>\<open>d[k] = v\<close> on a dict: replace the value of an existing key in place, or
  append the new key.\<close>

fun setitem :: "(string \<times> json) list \<Rightarrow> string \<Rightarrow> json \<Rightarrow> (string \<times> json) list" where
  "setitem [] k v = [(k, v)]"
| "setitem ((k', v') # d) k v = (if k' = k then (k, v) # d else (k', v') # setitem d k v)"

text \<open>A text between single quotes.\<close>

definition sq :: "string \<Rightarrow> string" where
  "sq s = CHR 0x27 # s @ [CHR 0x27]"

text \<open>\<open>sep.join(xs)\<close>.\<close>

fun join :: "string \<Rightarrow> string list \<Rightarrow> string" where
  "join sep [] = []"
| "join sep [x] = x"
| "join sep (x # y # ys) = x @ sep @ join sep (y # ys)"

subsection \<open>\<open>repr(s)\<close>, \<open>s.lower()\<close> and \<open>str(n)\<close>\<close>

definition hex_digit :: "nat \<Rightarrow> char" where
  "hex_digit n = ''0123456789abcdef'' ! (n mod 16)"

text \<open>The characters \<open>repr\<close> escapes besides the quote and the backslash: the control
  characters, 127 to 160, and the soft hyphen 173.\<close>

definition repr_char :: "char \<Rightarrow> char \<Rightarrow> string" where
  "repr_char q c =
     (let n = (of_char c :: nat) in
      if c = q \<or> c = CHR 0x5C then [CHR 0x5C, c]
      else if n = 10 then [CHR 0x5C, CHR ''n'']
      else if n = 13 then [CHR 0x5C, CHR ''r'']
      else if n = 9 then [CHR 0x5C, CHR ''t'']
      else if n < 32 \<or> (127 \<le> n \<and> n \<le> 160) \<or> n = 173
        then [CHR 0x5C, CHR ''x'', hex_digit (n div 16), hex_digit n]
      else [c])"

text \<open>Python quotes with single quotes unless the string holds a single quote and no
  double quote.\<close>

definition py_repr :: "string \<Rightarrow> string" where
  "py_repr s =
     (let q = (if CHR 0x27 \<in> set s \<and> CHR 0x22 \<notin> set s then CHR 0x22 else CHR 0x27)
      in [q] @ concat (map (repr_char q) s) @ [q])"

text \<open>The capital letters are A to Z and, in Latin-1, 192 to 222 without the
  multiplication sign 215; the small letter is 32 further.\<close>

definition lower_char :: "char \<Rightarrow> char" where
  "lower_char c =
     (case map_of (zip ''ABCDEFGHIJKLMNOPQRSTUVWXYZ'' ''abcdefghijklmnopqrstuvwxyz'') c of
        Some l \<Rightarrow> l
      | None \<Rightarrow>
          (let n = (of_char c :: nat) in
           if 192 \<le> n \<and> n \<le> 222 \<and> n \<noteq> 215 then char_of (n + 32) else c))"

definition lower :: "string \<Rightarrow> string" where
  "lower s = map lower_char s"

fun str_nat :: "nat \<Rightarrow> string" where
  "str_nat n =
     (if n < 10 then [''0123456789'' ! n]
      else str_nat (n div 10) @ [''0123456789'' ! (n mod 10)])"

definition str_int :: "int \<Rightarrow> string" where
  "str_int i = (if i < 0 then CHR ''-'' # str_nat (nat (- i)) else str_nat (nat i))"

subsection \<open>\<open>int(s)\<close> on a string, base 10\<close>

definition is_digit :: "char \<Rightarrow> bool" where
  "is_digit c = (c \<in> set ''0123456789'')"

definition digit_val :: "char \<Rightarrow> int" where
  "digit_val c = int (of_char c) - 48"

text \<open>The characters \<open>int()\<close> skips before and after a literal: tab, line feed,
  vertical tab, form feed, carriage return, space, and the two spaces of Latin-1 beyond
  ASCII, next line (133) and no-break space (160).\<close>

definition is_space :: "char \<Rightarrow> bool" where
  "is_space c = (of_char c \<in> {9, 10, 11, 12, 13, 32, 133, 160 :: nat})"

text \<open>The sign that may precede the digits.\<close>

definition negative :: "string \<Rightarrow> bool" where
  "negative t = (case t of [] \<Rightarrow> False | c # cs \<Rightarrow> c = CHR ''-'')"

definition skip_sign :: "string \<Rightarrow> string" where
  "skip_sign t =
     (case t of
        [] \<Rightarrow> []
      | c # cs \<Rightarrow> if c = CHR ''-'' \<or> c = CHR ''+'' then cs else t)"

definition digit_or_underscore :: "char \<Rightarrow> bool" where
  "digit_or_underscore c = (is_digit c \<or> c = CHR ''_'')"

text \<open>The digits of a literal, most significant first, with single underscores allowed
  between two digits. The first character must be a digit.\<close>

fun digits_acc :: "int \<Rightarrow> string \<Rightarrow> int option" where
  "digits_acc acc [] = Some acc"
| "digits_acc acc (c # cs) =
     (if is_digit c then digits_acc (10 * acc + digit_val c) cs
      else if c = CHR ''_'' then
        (case cs of
           [] \<Rightarrow> None
         | d # ds \<Rightarrow> if is_digit d then digits_acc acc cs else None)
      else None)"

definition digits :: "string \<Rightarrow> int option" where
  "digits r =
     (case r of
        [] \<Rightarrow> None
      | c # cs \<Rightarrow> if is_digit c then digits_acc 0 r else None)"

text \<open>CPython refuses a decimal literal of more than 4300 digits (its default limit on
  integer string conversion).\<close>

definition int_max_str_digits :: nat where
  "int_max_str_digits = 4300"

text \<open>
  \<open>int(s)\<close>: the value, or the message of the ValueError. After the leading spaces and
  the sign comes the run of digits and underscores; a run that is not well formed is an
  invalid literal, a well-formed run of too many digits exceeds the limit, and
  anything but spaces after the run is an invalid literal. The message shows at most
  200 characters of the repr of \<open>s\<close>.
\<close>

definition invalid_literal :: "string \<Rightarrow> string" where
  "invalid_literal s = ''invalid literal for int() with base 10: '' @ take 200 (py_repr s)"

definition int_str :: "string \<Rightarrow> string + int" where
  "int_str s =
     (let t = dropWhile is_space s;
          u = skip_sign t;
          run = takeWhile digit_or_underscore u;
          rest = dropWhile digit_or_underscore u
      in case digits run of
           None \<Rightarrow> Inl (invalid_literal s)
         | Some v \<Rightarrow>
             if length (filter is_digit run) > int_max_str_digits
             then Inl (''Exceeds the limit ('' @ str_nat int_max_str_digits
                    @ '' digits) for integer string conversion: value has ''
                    @ str_nat (length (filter is_digit run))
                    @ '' digits; use sys.set_int_max_str_digits() to increase the limit'')
             else if dropWhile is_space rest \<noteq> [] then Inl (invalid_literal s)
             else Inr (if negative t then - v else v))"

text \<open>The integer \<open>s\<close> parses to, None when \<open>int(s)\<close> raises.\<close>

definition py_int :: "string \<Rightarrow> int option" where
  "py_int s = (case int_str s of Inl m \<Rightarrow> None | Inr n \<Rightarrow> Some n)"

text \<open>\<open>str(e)\<close>: the message, except for KeyError, which shows the repr of the key.\<close>

fun str_exc :: "py_exception \<Rightarrow> string" where
  "str_exc (NameError m) = m"
| "str_exc (ValueError m) = m"
| "str_exc (KeyError k) = py_repr k"
| "str_exc (TypeError m) = m"
| "str_exc (AttributeError m) = m"
| "str_exc (ClientError m) = m"
| "str_exc (WaiterError m) = m"
| "str_exc (OtherException m) = m"

text \<open>\<open>str(x)\<close> of an optional string, as an f-string formats it, and the value a dict
  entry holds for it.\<close>

definition py_str :: "string option \<Rightarrow> string" where
  "py_str x = (case x of None \<Rightarrow> ''None'' | Some s \<Rightarrow> s)"

definition opt_json :: "string option \<Rightarrow> json" where
  "opt_json x = (case x of None \<Rightarrow> JNull | Some s \<Rightarrow> JStr s)"

section \<open>Constants of change.py\<close>

definition DEFAULT_TTL :: int where
  "DEFAULT_TTL = 300"

definition DEFAULT_WAITER_DELAY :: nat where
  "DEFAULT_WAITER_DELAY = 10"

definition DEFAULT_WAITER_MAX_ATTEMPTS :: nat where
  "DEFAULT_WAITER_MAX_ATTEMPTS = 50"

definition SUPPORTED_RECORD_TYPES :: "string set" where
  "SUPPORTED_RECORD_TYPES =
     {''SOA'', ''A'', ''TXT'', ''NS'', ''CNAME'', ''MX'', ''PTR'', ''SRV'', ''SPF'', ''AAAA''}"

definition SUPPORTED_ACTIONS :: "string set" where
  "SUPPORTED_ACTIONS = {''CREATE'', ''DELETE'', ''UPSERT''}"

section \<open>Reading the configuration and validating it\<close>

text \<open>
  \<open>os.environ\<close> is a map from names to strings. \<open>_get_env\<close> returns the value, or None
  for an absent key that is not required; a required key whose value is absent or empty
  (\<open>not value\<close>) raises NameError.
\<close>

definition get_env :: "(string \<rightharpoonup> string) \<Rightarrow> string \<Rightarrow> bool \<Rightarrow> py_exception + string option" where
  "get_env environ variable exit_on_missing =
     (let value = environ variable in
      if (value = None \<or> value = Some []) \<and> exit_on_missing
      then Inl (NameError (''Cannot find environment variable: '' @ variable))
      else Inr value)"

text \<open>
  The two membership validators. The message joins the elements of the Python set, whose
  iteration order is not fixed by the language: \<open>order\<close> is the order in which the run
  iterates the set.
\<close>

definition validate_record_type :: "string list \<Rightarrow> string \<Rightarrow> py_exception + unit" where
  "validate_record_type order record_type =
     (if record_type \<notin> SUPPORTED_RECORD_TYPES
      then Inl (ValueError (''Unsupported record type: '' @ record_type
                  @ ''. Supported types: '' @ join '', '' order))
      else Inr ())"

definition validate_action :: "string list \<Rightarrow> string \<Rightarrow> py_exception + unit" where
  "validate_action order action =
     (if action \<notin> SUPPORTED_ACTIONS
      then Inl (ValueError (''Unsupported action: '' @ action
                  @ ''. Supported actions: '' @ join '', '' order))
      else Inr ())"

text \<open>
  \<open>_validate_ttl\<close>: the body of the \<open>try\<close> first, where \<open>int()\<close> and the range check
  raise ValueError, then the handler, which raises a ValueError with the message
  wrapped.
\<close>

definition ttl_try :: "string option \<Rightarrow> py_exception + int" where
  "ttl_try ttl =
     (case (case ttl of
              None \<Rightarrow> Inr DEFAULT_TTL
            | Some s \<Rightarrow>
                if s = [] then Inr DEFAULT_TTL
                else (case int_str s of
                        Inl m \<Rightarrow> Inl (ValueError m)
                      | Inr n \<Rightarrow> Inr n)) of
        Inl e \<Rightarrow> Inl e
      | Inr ttl_value \<Rightarrow>
          if ttl_value < 0 \<or> ttl_value > 2147483647
          then Inl (ValueError ''TTL must be between 0 and 2147483647'')
          else Inr ttl_value)"

definition validate_ttl :: "string option \<Rightarrow> py_exception + int" where
  "validate_ttl ttl =
     (case ttl_try ttl of
        Inl (ValueError m) \<Rightarrow>
          Inl (ValueError (''Invalid TTL value '' @ sq (py_str ttl) @ '': '' @ m))
      | Inl e \<Rightarrow> Inl e
      | Inr v \<Rightarrow> Inr v)"

section \<open>\<open>json.dumps(obj, indent=4)\<close>\<close>

definition json_escape_char :: "char \<Rightarrow> string" where
  "json_escape_char c =
     (let n = (of_char c :: nat) in
      if c = CHR 0x22 \<or> c = CHR 0x5C then [CHR 0x5C, c]
      else if n = 10 then [CHR 0x5C, CHR ''n'']
      else if n = 13 then [CHR 0x5C, CHR ''r'']
      else if n = 9 then [CHR 0x5C, CHR ''t'']
      else if n = 8 then [CHR 0x5C, CHR ''b'']
      else if n = 12 then [CHR 0x5C, CHR ''f'']
      else if n < 32 \<or> 127 \<le> n
        then [CHR 0x5C, CHR ''u'', CHR ''0'', CHR ''0'', hex_digit (n div 16), hex_digit n]
      else [c])"

definition json_str :: "string \<Rightarrow> string" where
  "json_str s = [CHR 0x22] @ concat (map json_escape_char s) @ [CHR 0x22]"

definition newline_indent :: "nat \<Rightarrow> string" where
  "newline_indent level = CHR 0x0A # replicate (4 * level) CHR '' ''"

fun dumps :: "nat \<Rightarrow> json \<Rightarrow> string" where
  "dumps level JNull = ''null''"
| "dumps level (JBool b) = (if b then ''true'' else ''false'')"
| "dumps level (JInt i) = str_int i"
| "dumps level (JStr s) = json_str s"
| "dumps level (JList xs) =
     (if xs = [] then ''[]''
      else ''['' @ newline_indent (Suc level)
           @ join ('','' @ newline_indent (Suc level)) (map (dumps (Suc level)) xs)
           @ newline_indent level @ '']'')"
| "dumps level (JObj kvs) =
     (if kvs = [] then ''{}''
      else ''{'' @ newline_indent (Suc level)
           @ join ('','' @ newline_indent (Suc level))
               (map (\<lambda>kv. json_str (fst kv) @ '': '' @ dumps (Suc level) (snd kv)) kvs)
           @ newline_indent level @ ''}'')"

section \<open>The world outside the program\<close>

text \<open>
  What a run observes of the outside: the environment, the order in which the two
  constant sets are iterated, whether creating the client and the waiter raises, what
  the service answers to a change submission, and the status it reports for a change
  at each successive lookup. What the run does to the outside is a list of events.
  Log records are not modelled.
\<close>

datatype change_status = PENDING | INSYNC

datatype event =
    ChangeResourceRecordSets json json
  | GetChange json
  | Sleep nat
  | StdoutWrite string
  | StderrWrite string

record world =
  environ :: "string \<rightharpoonup> string"
  actions_iter :: "string list"
  record_types_iter :: "string list"
  boto3_client :: "py_exception option"
  get_waiter :: "py_exception option"
  change_resource_record_sets :: "json \<Rightarrow> json \<Rightarrow> py_exception + json"
  get_change :: "json \<Rightarrow> nat \<Rightarrow> change_status"

datatype client_obj = Route53Client

datatype waiter_obj = ResourceRecordSetsChanged

text \<open>The instance state of class AWSRoute53RecordSet, and its \<open>__init__\<close>.\<close>

record AWSRoute53RecordSet =
  client :: "client_obj option"
  waiter :: "waiter_obj option"
  rr_skeleton :: "(string \<times> json) list"

definition init :: AWSRoute53RecordSet where
  "init = \<lparr>client = None, waiter = None, rr_skeleton = []\<rparr>"

text \<open>
  Modelled from the spec: the polling loop of the waiter object, which lives in the
  client library and not in change.py. It looks the status of the change up, returns
  when the status is terminal, fails with the waiter's error once \<open>max_attempts\<close>
  lookups have been made, and otherwise sleeps \<open>delay\<close> and looks again. \<open>k\<close> counts
  the lookups made so far.
\<close>

fun poll :: "(nat \<Rightarrow> change_status) \<Rightarrow> json \<Rightarrow> nat \<Rightarrow> nat \<Rightarrow> nat
    \<Rightarrow> (py_exception + unit) \<times> event list" where
  "poll status rid delay 0 k = (Inl (WaiterError ''Max attempts exceeded''), [])"
| "poll status rid delay (Suc n) k =
     (if status k = INSYNC then (Inr (), [GetChange rid])
      else if n = 0 then (Inl (WaiterError ''Max attempts exceeded''), [GetChange rid])
      else (case poll status rid delay n (Suc k) of
              (r, evs) \<Rightarrow> (r, GetChange rid # Sleep delay # evs)))"

definition waiter_wait :: "world \<Rightarrow> json \<Rightarrow> nat \<Rightarrow> nat \<Rightarrow> (py_exception + unit) \<times> event list" where
  "waiter_wait w change_id delay max_attempts =
     poll (get_change w change_id) change_id delay max_attempts 0"

section \<open>The methods of AWSRoute53RecordSet\<close>

definition connect :: "world \<Rightarrow> AWSRoute53RecordSet \<Rightarrow> (py_exception + unit) \<times> AWSRoute53RecordSet" where
  "connect w self =
     (if client self = None then
        (case boto3_client w of
           Some e \<Rightarrow> (Inl e, self)
         | None \<Rightarrow>
             (case get_waiter w of
                Some e \<Rightarrow> (Inl e, self\<lparr>client := Some Route53Client\<rparr>)
              | None \<Rightarrow> (Inr (), self\<lparr>client := Some Route53Client,
                                       waiter := Some ResourceRecordSetsChanged\<rparr>)))
      else (Inr (), self))"

definition set_comment :: "world \<Rightarrow> AWSRoute53RecordSet \<Rightarrow> (py_exception + unit) \<times> AWSRoute53RecordSet" where
  "set_comment w self =
     (case get_env (environ w) ''INPUT_AWS_ROUTE53_RR_COMMENT'' False of
        Inl e \<Rightarrow> (Inl e, self)
      | Inr comment \<Rightarrow>
          if comment \<noteq> None \<and> comment \<noteq> Some []
          then (Inr (), self\<lparr>rr_skeleton := setitem (rr_skeleton self) ''Comment'' (opt_json comment)\<rparr>)
          else (Inr (), self))"

text \<open>
  \<open>_set_base_changes\<close>: the statements in the order of the source; the first one that
  raises ends the method. A value fetched as required is a string, never None.
\<close>

definition set_base_changes :: "world \<Rightarrow> AWSRoute53RecordSet \<Rightarrow> (py_exception + unit) \<times> AWSRoute53RecordSet" where
  "set_base_changes w self =
     (case get_env (environ w) ''INPUT_AWS_ROUTE53_RR_ACTION'' True of
        Inl e \<Rightarrow> (Inl e, self)
      | Inr action \<Rightarrow>
     (case validate_action (actions_iter w) (py_str action) of
        Inl e \<Rightarrow> (Inl e, self)
      | Inr _ \<Rightarrow>
     (case get_env (environ w) ''INPUT_AWS_ROUTE53_RR_NAME'' True of
        Inl e \<Rightarrow> (Inl e, self)
      | Inr name \<Rightarrow>
     (case get_env (environ w) ''INPUT_AWS_ROUTE53_RR_TYPE'' True of
        Inl e \<Rightarrow> (Inl e, self)
      | Inr record_type \<Rightarrow>
     (case validate_record_type (record_types_iter w) (py_str record_type) of
        Inl e \<Rightarrow> (Inl e, self)
      | Inr _ \<Rightarrow>
     (case get_env (environ w) ''INPUT_AWS_ROUTE53_RR_TTL'' False of
        Inl e \<Rightarrow> (Inl e, self)
      | Inr ttl_str \<Rightarrow>
     (case validate_ttl ttl_str of
        Inl e \<Rightarrow> (Inl e, self)
      | Inr ttl \<Rightarrow>
     (case get_env (environ w) ''INPUT_AWS_ROUTE53_RR_VALUE'' True of
        Inl e \<Rightarrow> (Inl e, self)
      | Inr val \<Rightarrow>
          (Inr (), self\<lparr>rr_skeleton := setitem (rr_skeleton self) ''Changes''
             (JList [JObj
                [(''Action'', opt_json action),
                 (''ResourceRecordSet'', JObj
                    [(''Name'', opt_json name),
                     (''Type'', opt_json record_type),
                     (''TTL'', JInt ttl),
                     (''ResourceRecords'', JList [JObj [(''Value'', opt_json val)]])])]])\<rparr>)))))))))"

definition build_record_set :: "world \<Rightarrow> AWSRoute53RecordSet \<Rightarrow> (py_exception + json) \<times> AWSRoute53RecordSet" where
  "build_record_set w self =
     (case set_comment w self of
        (Inl e, self1) \<Rightarrow> (Inl e, self1)
      | (Inr _, self1) \<Rightarrow>
          (case set_base_changes w self1 of
             (Inl e, self2) \<Rightarrow> (Inl e, self2)
           | (Inr _, self2) \<Rightarrow> (Inr (JObj (rr_skeleton self2)), self2)))"

text \<open>\<open>_change_record_set\<close>: the handler of ClientError logs and raises the same
  exception again, so every exception of the call leaves the method unchanged.\<close>

definition change_record_set :: "world \<Rightarrow> AWSRoute53RecordSet \<Rightarrow> json \<Rightarrow> (py_exception + json) \<times> event list" where
  "change_record_set w self record_set =
     (case get_env (environ w) ''INPUT_AWS_ROUTE53_HOSTED_ZONE_ID'' True of
        Inl e \<Rightarrow> (Inl e, [])
      | Inr hosted_zone_id \<Rightarrow>
          (case client self of
             None \<Rightarrow> (Inl (AttributeError
                (sq ''NoneType'' @ '' object has no attribute ''
                @ sq ''change_resource_record_sets'')), [])
           | Some c \<Rightarrow>
               (change_resource_record_sets w (opt_json hosted_zone_id) record_set,
                [ChangeResourceRecordSets (opt_json hosted_zone_id) record_set])))"

definition wait :: "world \<Rightarrow> AWSRoute53RecordSet \<Rightarrow> json \<Rightarrow> (py_exception + unit) \<times> event list" where
  "wait w self request_id =
     (case get_env (environ w) ''INPUT_AWS_ROUTE53_WAIT'' False of
        Inl e \<Rightarrow> (Inl e, [])
      | Inr wait_str \<Rightarrow>
          if wait_str \<noteq> None \<and> wait_str \<noteq> Some []
             \<and> lower (py_str wait_str) \<in> set [''true'', ''1'', ''yes'']
          then (case waiter self of
                  None \<Rightarrow> (Inl (AttributeError
                     (sq ''NoneType'' @ '' object has no attribute '' @ sq ''wait'')), [])
                | Some wt \<Rightarrow>
                    waiter_wait w request_id DEFAULT_WAITER_DELAY DEFAULT_WAITER_MAX_ATTEMPTS)
          else (Inr (), []))"

text \<open>\<open>obj[key]\<close> with a string key.\<close>

fun getitem :: "json \<Rightarrow> string \<Rightarrow> py_exception + json" where
  "getitem (JObj d) k = (case map_of d k of None \<Rightarrow> Inl (KeyError k) | Some v \<Rightarrow> Inr v)"
| "getitem (JStr s) k = Inl (TypeError (''string indices must be integers, not '' @ sq ''str''))"
| "getitem (JList xs) k = Inl (TypeError ''list indices must be integers or slices, not str'')"
| "getitem JNull k = Inl (TypeError (sq ''NoneType'' @ '' object is not subscriptable''))"
| "getitem (JBool b) k = Inl (TypeError (sq ''bool'' @ '' object is not subscriptable''))"
| "getitem (JInt i) k = Inl (TypeError (sq ''int'' @ '' object is not subscriptable''))"

definition obtain_request_id :: "json \<Rightarrow> py_exception + json" where
  "obtain_request_id result =
     (case getitem result ''ChangeInfo'' of
        Inl e \<Rightarrow> Inl e
      | Inr change_info \<Rightarrow> getitem change_info ''Id'')"

definition obtain_marshalled_result :: "json \<Rightarrow> py_exception + string" where
  "obtain_marshalled_result result =
     (case getitem result ''ResponseMetadata'' of
        Inl e \<Rightarrow> Inl e
      | Inr metadata \<Rightarrow> Inr (dumps 0 metadata))"

text \<open>
  \<open>change\<close>: \<open>change_try\<close> is the body of the \<open>try\<close>, the stages in order, ending
  at the first exception; the handler of \<open>Exception\<close> writes the message to standard
  error and calls \<open>sys.exit(1)\<close>.
\<close>

definition change_try :: "world \<Rightarrow> AWSRoute53RecordSet
    \<Rightarrow> (py_exception + unit) \<times> AWSRoute53RecordSet \<times> event list" where
  "change_try w self =
     (case connect w self of
        (Inl e, self1) \<Rightarrow> (Inl e, self1, [])
      | (Inr _, self1) \<Rightarrow>
     (case build_record_set w self1 of
        (Inl e, self2) \<Rightarrow> (Inl e, self2, [])
      | (Inr record_set, self2) \<Rightarrow>
     (case change_record_set w self2 record_set of
        (Inl e, evs1) \<Rightarrow> (Inl e, self2, evs1)
      | (Inr result, evs1) \<Rightarrow>
     (case obtain_request_id result of
        Inl e \<Rightarrow> (Inl e, self2, evs1)
      | Inr request_id \<Rightarrow>
     (case wait w self2 request_id of
        (Inl e, evs2) \<Rightarrow> (Inl e, self2, evs1 @ evs2)
      | (Inr _, evs2) \<Rightarrow>
     (case obtain_marshalled_result result of
        Inl e \<Rightarrow> (Inl e, self2, evs1 @ evs2)
      | Inr output \<Rightarrow>
          (Inr (), self2, evs1 @ evs2 @ [StdoutWrite (output @ [CHR 0x0A])])))))))"

datatype outcome = Returned | SystemExit int

definition change :: "world \<Rightarrow> AWSRoute53RecordSet \<Rightarrow> outcome \<times> AWSRoute53RecordSet \<times> event list" where
  "change w self =
     (case change_try w self of
        (Inl e, self1, evs) \<Rightarrow>
          (SystemExit 1, self1,
           evs @ [StderrWrite (''Route 53 record set change failed: '' @ str_exc e @ [CHR 0x0A])])
      | (Inr _, self1, evs) \<Rightarrow> (Returned, self1, evs))"

text \<open>\<open>main\<close>: the exit status of the process and what it did. \<open>sys.exit\<close> is not an
  \<open>Exception\<close>, so the handler of \<open>main\<close> never runs after \<open>change\<close>.\<close>

definition main :: "world \<Rightarrow> int \<times> event list" where
  "main w =
     (case change w init of
        (Returned, self, evs) \<Rightarrow> (0, evs)
      | (SystemExit code, self, evs) \<Rightarrow> (code, evs))"

section \<open>Reading events and responses\<close>

text \<open>The status lookups and the sleeps among the events of a run.\<close>

fun is_poll :: "event \<Rightarrow> bool" where
  "is_poll (GetChange rid) = True"
| "is_poll e = False"

fun is_sleep :: "event \<Rightarrow> bool" where
  "is_sleep (Sleep d) = True"
| "is_sleep e = False"

definition polls :: "event list \<Rightarrow> nat" where
  "polls evs = length (filter is_poll evs)"

text \<open>The value of a field of a response: None when the response is not a dict or
  has no such key. \<open>change_id_field\<close> is the field Id of the field ChangeInfo.\<close>

fun field :: "json \<Rightarrow> string \<Rightarrow> json option" where
  "field (JObj d) k = map_of d k"
| "field v k = None"

definition change_id_field :: "json \<Rightarrow> json option" where
  "change_id_field res =
     (case field res ''ChangeInfo'' of None \<Rightarrow> None | Some c \<Rightarrow> field c ''Id'')"

section \<open>The order of the checks\<close>

text \<open>
  The keys fetched with \<open>exit_on_missing\<close> left at True. \<open>checks_before w k\<close> says
  that the checks \<open>_set_base_changes\<close> and \<open>_change_record_set\<close> make before they
  fetch the required key \<open>k\<close> all pass in the world \<open>w\<close>.
\<close>

definition required_keys :: "string list" where
  "required_keys =
     [''INPUT_AWS_ROUTE53_RR_ACTION'', ''INPUT_AWS_ROUTE53_RR_NAME'',
      ''INPUT_AWS_ROUTE53_RR_TYPE'', ''INPUT_AWS_ROUTE53_RR_VALUE'',
      ''INPUT_AWS_ROUTE53_HOSTED_ZONE_ID'']"

definition succeeds :: "'e + 'a \<Rightarrow> bool" where
  "succeeds r = (case r of Inl e \<Rightarrow> False | Inr v \<Rightarrow> True)"

definition action_ok :: "world \<Rightarrow> bool" where
  "action_ok w =
     (succeeds (get_env (environ w) ''INPUT_AWS_ROUTE53_RR_ACTION'' True) \<and>
      succeeds (validate_action (actions_iter w)
                  (py_str (environ w ''INPUT_AWS_ROUTE53_RR_ACTION''))))"

definition name_ok :: "world \<Rightarrow> bool" where
  "name_ok w = succeeds (get_env (environ w) ''INPUT_AWS_ROUTE53_RR_NAME'' True)"

definition type_ok :: "world \<Rightarrow> bool" where
  "type_ok w =
     (succeeds (get_env (environ w) ''INPUT_AWS_ROUTE53_RR_TYPE'' True) \<and>
      succeeds (validate_record_type (record_types_iter w)
                  (py_str (environ w ''INPUT_AWS_ROUTE53_RR_TYPE''))))"

definition ttl_ok :: "world \<Rightarrow> bool" where
  "ttl_ok w = succeeds (validate_ttl (environ w ''INPUT_AWS_ROUTE53_RR_TTL''))"

definition value_ok :: "world \<Rightarrow> bool" where
  "value_ok w = succeeds (get_env (environ w) ''INPUT_AWS_ROUTE53_RR_VALUE'' True)"

definition checks_before :: "world \<Rightarrow> string \<Rightarrow> bool" where
  "checks_before w k =
     (if k = ''INPUT_AWS_ROUTE53_RR_ACTION'' then True
      else if k = ''INPUT_AWS_ROUTE53_RR_NAME'' then action_ok w
      else if k = ''INPUT_AWS_ROUTE53_RR_TYPE'' then action_ok w \<and> name_ok w
      else if k = ''INPUT_AWS_ROUTE53_RR_VALUE'' then
        action_ok w \<and> name_ok w \<and> type_ok w \<and> ttl_ok w
      else if k = ''INPUT_AWS_ROUTE53_HOSTED_ZONE_ID'' then
        action_ok w \<and> name_ok w \<and> type_ok w \<and> ttl_ok w \<and> value_ok w
      else False)"

section \<open>Example worlds\<close>

text \<open>A service that accepts every change, and one that rejects every change.\<close>

definition accepting_service :: "json \<Rightarrow> json \<Rightarrow> py_exception + json" where
  "accepting_service zone batch =
     Inr (JObj [(''ResponseMetadata'', JObj [(''RequestId'', JStr ''r-1''),
                                              (''HTTPStatusCode'', JInt 200)]),
                (''ChangeInfo'', JObj [(''Id'', JStr ''/change/C1''),
                                       (''Status'', JStr ''PENDING'')])])"

definition rejecting_service :: "json \<Rightarrow> json \<Rightarrow> py_exception + json" where
  "rejecting_service zone batch = Inl (ClientError ''An error occurred (NoSuchHostedZone)'')"

text \<open>A service whose answer lacks the change identifier.\<close>

definition shapeless_service :: "json \<Rightarrow> json \<Rightarrow> py_exception + json" where
  "shapeless_service zone batch =
     Inr (JObj [(''ResponseMetadata'', JObj [(''HTTPStatusCode'', JInt 200)]),
                (''ChangeInfo'', JObj [(''Status'', JStr ''PENDING'')])])"

definition upsert_env :: "(string \<times> string) list" where
  "upsert_env =
     [(''INPUT_AWS_ROUTE53_RR_ACTION'', ''UPSERT''),
      (''INPUT_AWS_ROUTE53_RR_NAME'', ''example.com''),
      (''INPUT_AWS_ROUTE53_RR_TYPE'', ''A''),
      (''INPUT_AWS_ROUTE53_RR_VALUE'', ''1.2.3.4''),
      (''INPUT_AWS_ROUTE53_HOSTED_ZONE_ID'', ''Z123'')]"

text \<open>The configuration of the specification's example, a service that accepts, and a
  change that is in sync at the fourth lookup.\<close>

definition upsert_world :: world where
  "upsert_world =
     \<lparr>environ = map_of upsert_env,
      actions_iter = [''CREATE'', ''DELETE'', ''UPSERT''],
      record_types_iter =
        [''SOA'', ''A'', ''TXT'', ''NS'', ''CNAME'', ''MX'', ''PTR'', ''SRV'', ''SPF'', ''AAAA''],
      boto3_client = None,
      get_waiter = None,
      change_resource_record_sets = accepting_service,
      get_change = (\<lambda>rid k. if k < 3 then PENDING else INSYNC)\<rparr>"

definition connected :: AWSRoute53RecordSet where
  "connected = \<lparr>client = Some Route53Client, waiter = Some ResourceRecordSetsChanged,
                rr_skeleton = []\<rparr>"

text \<open>The same configuration with the wait flag set; with a change that never gets in
  sync; with a service that rejects; with a service whose answer lacks the change
  identifier; with the wait flag false. \<open>accepted_result\<close> is the answer of
  \<open>accepting_service\<close>.\<close>

definition wait_env :: "(string \<times> string) list" where
  "wait_env = (''INPUT_AWS_ROUTE53_WAIT'', ''True'') # upsert_env"

definition waiting_world :: world where
  "waiting_world = upsert_world\<lparr>environ := map_of wait_env\<rparr>"

definition pending_world :: world where
  "pending_world = waiting_world\<lparr>get_change := (\<lambda>rid k. PENDING)\<rparr>"

definition rejecting_world :: world where
  "rejecting_world = waiting_world\<lparr>change_resource_record_sets := rejecting_service\<rparr>"

definition shapeless_world :: world where
  "shapeless_world = upsert_world\<lparr>change_resource_record_sets := shapeless_service\<rparr>"

definition false_world :: world where
  "false_world = upsert_world\<lparr>environ := map_of ((''INPUT_AWS_ROUTE53_WAIT'', ''false'') # upsert_env)\<rparr>"

definition accepted_result :: json where
  "accepted_result =
     JObj [(''ResponseMetadata'', JObj [(''RequestId'', JStr ''r-1''),
                                        (''HTTPStatusCode'', JInt 200)]),
           (''ChangeInfo'', JObj [(''Id'', JStr ''/change/C1''),
                                  (''Status'', JStr ''PENDING'')])]"

text \<open>The answer of \<open>shapeless_service\<close>.\<close>

definition shapeless_result :: json where
  "shapeless_result =
     JObj [(''ResponseMetadata'', JObj [(''HTTPStatusCode'', JInt 200)]),
           (''ChangeInfo'', JObj [(''Status'', JStr ''PENDING'')])]"

text \<open>Configurations with a required key absent or empty: the value absent and the
  action invalid; the value absent and the rest valid; the value empty and the TTL
  invalid; the action empty.\<close>

definition bogus_env :: "(string \<times> string) list" where
  "bogus_env =
     [(''INPUT_AWS_ROUTE53_RR_ACTION'', ''BOGUS''),
      (''INPUT_AWS_ROUTE53_RR_NAME'', ''example.com''),
      (''INPUT_AWS_ROUTE53_RR_TYPE'', ''A''),
      (''INPUT_AWS_ROUTE53_HOSTED_ZONE_ID'', ''Z123'')]"

definition bogus_world :: world where
  "bogus_world = upsert_world\<lparr>environ := map_of bogus_env\<rparr>"

definition no_value_env :: "(string \<times> string) list" where
  "no_value_env =
     [(''INPUT_AWS_ROUTE53_RR_ACTION'', ''UPSERT''),
      (''INPUT_AWS_ROUTE53_RR_NAME'', ''example.com''),
      (''INPUT_AWS_ROUTE53_RR_TYPE'', ''A''),
      (''INPUT_AWS_ROUTE53_HOSTED_ZONE_ID'', ''Z123'')]"

definition no_value_world :: world where
  "no_value_world = upsert_world\<lparr>environ := map_of no_value_env\<rparr>"

definition bad_ttl_env :: "(string \<times> string) list" where
  "bad_ttl_env =
     [(''INPUT_AWS_ROUTE53_RR_ACTION'', ''UPSERT''),
      (''INPUT_AWS_ROUTE53_RR_NAME'', ''example.com''),
      (''INPUT_AWS_ROUTE53_RR_TYPE'', ''A''),
      (''INPUT_AWS_ROUTE53_RR_TTL'', ''abc''),
      (''INPUT_AWS_ROUTE53_RR_VALUE'', ''''),
      (''INPUT_AWS_ROUTE53_HOSTED_ZONE_ID'', ''Z123'')]"

definition bad_ttl_world :: world where
  "bad_ttl_world = upsert_world\<lparr>environ := map_of bad_ttl_env\<rparr>"

definition empty_action_env :: "(string \<times> string) list" where
  "empty_action_env =
     [(''INPUT_AWS_ROUTE53_RR_ACTION'', ''''),
      (''INPUT_AWS_ROUTE53_RR_NAME'', ''example.com''),
      (''INPUT_AWS_ROUTE53_RR_TYPE'', ''A''),
      (''INPUT_AWS_ROUTE53_RR_VALUE'', ''1.2.3.4''),
      (''INPUT_AWS_ROUTE53_HOSTED_ZONE_ID'', ''Z123'')]"

definition empty_action_world :: world where
  "empty_action_world = upsert_world\<lparr>environ := map_of empty_action_env\<rparr>"

text \<open>The change entry the specification's example builds.\<close>

definition upsert_change :: json where
  "upsert_change =
     JObj [(''Action'', JStr ''UPSERT''),
           (''ResourceRecordSet'', JObj
              [(''Name'', JStr ''example.com''),
               (''Type'', JStr ''A''),
               (''TTL'', JInt 300),
               (''ResourceRecords'', JList [JObj [(''Value'', JStr ''1.2.3.4'')]])])]"

section \<open>Helper lemmas\<close>

lemmas py_int_eval = py_int_def int_str_def invalid_literal_def skip_sign_def negative_def
  digit_or_underscore_def is_space_def digits_def is_digit_def digit_val_def
  int_max_str_digits_def Let_def

lemma py_int_Nil: "py_int [] = None"
  by (simp add: py_int_eval)

lemma py_int_Some: "py_int s = Some n \<Longrightarrow> int_str s = Inr n"
  by (cases "int_str s") (simp_all add: py_int_def)

lemma py_int_None: "py_int s = None \<Longrightarrow> \<exists>m. int_str s = Inl m"
  by (cases "int_str s") (simp_all add: py_int_def)

lemma join_names: "a \<in> set xs \<Longrightarrow> \<exists>p q. join sep xs = p @ a @ q"
proof (induction sep xs rule: join.induct)
  case (1 sep)
  then show ?case by simp
next
  case (2 sep x)
  then have "join sep [x] = [] @ a @ []" by simp
  then show ?case by blast
next
  case (3 sep x y ys)
  show ?case
  proof (cases "a = x")
    case True
    then have "join sep (x # y # ys) = [] @ a @ (sep @ join sep (y # ys))" by simp
    then show ?thesis by blast
  next
    case False
    with 3 obtain p q where "join sep (y # ys) = p @ a @ q" by auto
    then have "join sep (x # y # ys) = (x @ sep @ p) @ a @ q" by simp
    then show ?thesis by blast
  qed
qed


lemma get_env_optional: "get_env env k False = Inr (env k)"
  by (simp add: get_env_def)

lemma get_env_required:
  "get_env env k True =
     (if env k = None \<or> env k = Some [] then
        Inl (NameError (''Cannot find environment variable: '' @ k))
      else Inr (env k))"
  by (auto simp: get_env_def Let_def)

lemma set_comment_result: "fst (set_comment w self) = Inr ()"
  by (simp add: set_comment_def get_env_optional)

lemma set_comment_absent:
  "environ w ''INPUT_AWS_ROUTE53_RR_COMMENT'' = None \<Longrightarrow> set_comment w self = (Inr (), self)"
  by (simp add: set_comment_def get_env_optional)

lemma set_base_changes_Inr:
  assumes "set_base_changes w self = (Inr u, self')"
  shows "\<exists>c. rr_skeleton self' = setitem (rr_skeleton self) ''Changes'' (JList [c])"
  using assms unfolding set_base_changes_def
  by (auto split: sum.splits)

lemma set_base_changes_Inl:
  assumes "set_base_changes w self = (Inl e, self')"
  shows "self' = self"
  using assms unfolding set_base_changes_def
  by (auto split: sum.splits)

lemma build_record_set_Inr:
  assumes "build_record_set w self = (Inr b, self')"
  shows "\<exists>self1 u. set_comment w self = (Inr (), self1) \<and> set_base_changes w self1 = (Inr u, self')
     \<and> b = JObj (rr_skeleton self')"
  using assms unfolding build_record_set_def
  by (auto split: sum.splits prod.splits)


lemmas upsert_env_eval = upsert_world_def upsert_env_def

lemma build_upsert_world: "\<exists>b self'. build_record_set upsert_world init = (Inr b, self')"
  by (simp add: build_record_set_def set_comment_def set_base_changes_def get_env_def
      validate_action_def validate_record_type_def validate_ttl_def ttl_try_def DEFAULT_TTL_def
      SUPPORTED_ACTIONS_def SUPPORTED_RECORD_TYPES_def py_str_def opt_json_def upsert_env_eval)

lemma change_record_set_events:
  assumes "change_record_set w self b = (r, evs)"
  shows "(evs = [] \<and> (\<exists>e. r = Inl e)) \<or>
         (\<exists>z. evs = [ChangeResourceRecordSets z b] \<and> r = change_resource_record_sets w z b)"
  using assms unfolding change_record_set_def
  by (auto split: sum.splits option.splits)

lemma poll_events_subset: "set (snd (poll st rid d n k)) \<subseteq> {GetChange rid, Sleep d}"
proof (induction n arbitrary: k)
  case 0
  then show ?case by simp
next
  case (Suc n)
  obtain r evs where p: "poll st rid d n (Suc k) = (r, evs)"
    by (cases "poll st rid d n (Suc k)")
  with Suc [of "Suc k"] have "set evs \<subseteq> {GetChange rid, Sleep d}" by simp
  with p show ?case by auto
qed

lemma poll_events:
  "x \<in> set (snd (poll st rid d n k)) \<Longrightarrow> x = GetChange rid \<or> x = Sleep d"
  using poll_events_subset [of st rid d n k] by auto

lemma poll_count: "polls (snd (poll st rid d n k)) \<le> n"
proof (induction n arbitrary: k)
  case 0
  then show ?case by (simp add: polls_def)
next
  case (Suc n)
  from Suc [of "Suc k"] show ?case
    by (auto simp: polls_def split: prod.splits)
qed

lemma poll_sleeps:
  "length (filter is_sleep (snd (poll st rid d n k))) = polls (snd (poll st rid d n k)) - 1"
proof (induction n arbitrary: k)
  case 0
  then show ?case by (simp add: polls_def)
next
  case (Suc n)
  show ?case
  proof (cases "st k = INSYNC \<or> n = 0")
    case True
    then show ?thesis by (auto simp: polls_def)
  next
    case False
    then obtain m where m: "n = Suc m" by (cases n) auto
    have "0 < polls (snd (poll st rid d (Suc m) (Suc k)))"
      by (auto simp: polls_def split: prod.splits)
    with False Suc [of "Suc k"] m show ?thesis
      by (auto simp: polls_def split: prod.splits)
  qed
qed

lemma poll_timeout:
  "0 < n \<Longrightarrow> \<forall>j<n. st (k + j) \<noteq> INSYNC \<Longrightarrow>
     fst (poll st rid d n k) = Inl (WaiterError ''Max attempts exceeded'')
     \<and> polls (snd (poll st rid d n k)) = n"
proof (induction n arbitrary: k)
  case 0
  then show ?case by simp
next
  case (Suc n)
  from Suc.prems(2) have k: "st k \<noteq> INSYNC" by (metis add_0_right zero_less_Suc)
  show ?case
  proof (cases "n = 0")
    case True
    with k show ?thesis by (simp add: polls_def)
  next
    case False
    have "\<forall>j<n. st (Suc k + j) \<noteq> INSYNC"
    proof (intro allI impI)
      fix j assume "j < n"
      then have "Suc j < Suc n" by simp
      with Suc.prems(2) have "st (k + Suc j) \<noteq> INSYNC" by blast
      then show "st (Suc k + j) \<noteq> INSYNC" by simp
    qed
    with False Suc.IH [of "Suc k"] have
      "fst (poll st rid d n (Suc k)) = Inl (WaiterError ''Max attempts exceeded'')
       \<and> polls (snd (poll st rid d n (Suc k))) = n" by simp
    with k False show ?thesis
      by (auto simp: polls_def split: prod.splits)
  qed
qed

lemma poll_success:
  "j < n \<Longrightarrow> st (k + j) = INSYNC \<Longrightarrow> \<forall>i<j. st (k + i) \<noteq> INSYNC \<Longrightarrow>
     fst (poll st rid d n k) = Inr () \<and> polls (snd (poll st rid d n k)) = Suc j"
proof (induction n arbitrary: k j)
  case 0
  then show ?case by simp
next
  case (Suc n)
  show ?case
  proof (cases j)
    case 0
    with Suc.prems show ?thesis by (simp add: polls_def)
  next
    case (Suc j')
    with Suc.prems(3) have k: "st k \<noteq> INSYNC" by (metis add_0_right zero_less_Suc)
    from Suc Suc.prems(1) have lt: "j' < n" by simp
    then have n0: "n \<noteq> 0" by simp
    from Suc Suc.prems(2) have s: "st (Suc k + j') = INSYNC" by simp
    have "\<forall>i<j'. st (Suc k + i) \<noteq> INSYNC"
    proof (intro allI impI)
      fix i assume "i < j'"
      with Suc have "Suc i < j" by simp
      with Suc.prems(3) have "st (k + Suc i) \<noteq> INSYNC" by blast
      then show "st (Suc k + i) \<noteq> INSYNC" by simp
    qed
    from Suc.IH [OF lt s this] have
      "fst (poll st rid d n (Suc k)) = Inr () \<and> polls (snd (poll st rid d n (Suc k))) = Suc j'" .
    with k n0 Suc show ?thesis
      by (auto simp: polls_def split: prod.splits)
  qed
qed

lemma wait_requested:
  assumes "environ w ''INPUT_AWS_ROUTE53_WAIT'' = Some s"
    and "lower s \<in> {''true'', ''1'', ''yes''}"
    and "waiter self = Some wt"
  shows "wait w self rid = poll (get_change w rid) rid 10 50 0"
proof -
  from assms(2) have "s \<noteq> []" by (auto simp: lower_def)
  with assms show ?thesis
    by (simp add: wait_def get_env_optional py_str_def waiter_wait_def
        DEFAULT_WAITER_DELAY_def DEFAULT_WAITER_MAX_ATTEMPTS_def)
qed

lemma wait_not_requested:
  assumes "environ w ''INPUT_AWS_ROUTE53_WAIT'' = None \<or>
     (\<exists>s. environ w ''INPUT_AWS_ROUTE53_WAIT'' = Some s \<and> lower s \<notin> {''true'', ''1'', ''yes''})"
  shows "wait w self rid = (Inr (), [])"
  using assms by (auto simp: wait_def get_env_optional py_str_def)

lemma wait_events:
  assumes "wait w self rid = (r, evs)" and "x \<in> set evs"
  shows "x = GetChange rid \<or> x = Sleep 10"
proof -
  from assms have "x \<in> set (snd (poll (get_change w rid) rid 10 50 0))"
    by (auto simp: wait_def get_env_optional waiter_wait_def DEFAULT_WAITER_DELAY_def
        DEFAULT_WAITER_MAX_ATTEMPTS_def split: if_splits option.splits)
  then show ?thesis by (rule poll_events)
qed

lemma getitem_missing:
  "field v k = None \<Longrightarrow> \<exists>e. getitem v k = Inl e \<and> kind_of e = UnexpectedResponseShape"
  by (cases v) auto

lemma obtain_request_id_missing:
  assumes "change_id_field res = None"
  shows "\<exists>e. obtain_request_id res = Inl e \<and> kind_of e = UnexpectedResponseShape"
proof (cases "field res ''ChangeInfo''")
  case None
  from getitem_missing [OF this] show ?thesis by (auto simp: obtain_request_id_def)
next
  case (Some c)
  with assms have "field c ''Id'' = None" by (simp add: change_id_field_def)
  from getitem_missing [OF this] obtain e where
    e: "getitem c ''Id'' = Inl e" "kind_of e = UnexpectedResponseShape" by blast
  from Some have "getitem res ''ChangeInfo'' = Inr c" by (cases res) auto
  with e show ?thesis by (simp add: obtain_request_id_def)
qed

lemma obtain_marshalled_result_missing:
  assumes "field res ''ResponseMetadata'' = None"
  shows "\<exists>e. obtain_marshalled_result res = Inl e \<and> kind_of e = UnexpectedResponseShape"
  using getitem_missing [OF assms] by (auto simp: obtain_marshalled_result_def)

lemma change_try_stages:
  assumes "connect w self = (Inr u, self1)"
    and "build_record_set w self1 = (Inr batch, self2)"
    and "change_record_set w self2 batch = (r, evs1)"
  shows "change_try w self =
     (case r of
        Inl e \<Rightarrow> (Inl e, self2, evs1)
      | Inr result \<Rightarrow>
         (case obtain_request_id result of
            Inl e \<Rightarrow> (Inl e, self2, evs1)
          | Inr request_id \<Rightarrow>
             (case wait w self2 request_id of
                (Inl e, evs2) \<Rightarrow> (Inl e, self2, evs1 @ evs2)
              | (Inr _, evs2) \<Rightarrow>
                 (case obtain_marshalled_result result of
                    Inl e \<Rightarrow> (Inl e, self2, evs1 @ evs2)
                  | Inr output \<Rightarrow>
                      (Inr (), self2, evs1 @ evs2 @ [StdoutWrite (output @ [CHR 0x0A])])))))"
  using assms by (simp add: change_try_def split: sum.splits)

lemma change_try_quiet:
  assumes "change_try w self = (r, self', evs)"
    and "\<forall>zone batch. ChangeResourceRecordSets zone batch \<in> set evs
           \<longrightarrow> (\<exists>e. change_resource_record_sets w zone batch = Inl e)"
  shows "(\<exists>e. r = Inl e) \<and> (\<forall>x \<in> set evs. \<not> is_poll x \<and> \<not> is_sleep x)"
proof -
  obtain r1 self1 where c: "connect w self = (r1, self1)" by (cases "connect w self")
  obtain r2 self2 where b: "build_record_set w self1 = (r2, self2)"
    by (cases "build_record_set w self1")
  show ?thesis
  proof (cases r1)
    case (Inl e)
    with c assms(1) show ?thesis by (auto simp: change_try_def)
  next
    case r1: (Inr u)
    show ?thesis
    proof (cases r2)
      case (Inl e)
      with c b r1 assms(1) show ?thesis by (auto simp: change_try_def)
    next
      case r2: (Inr batch)
      obtain r3 evs1 where s: "change_record_set w self2 batch = (r3, evs1)"
        by (cases "change_record_set w self2 batch")
      note st = change_try_stages [OF c [unfolded r1] b [unfolded r2] s]
      from change_record_set_events [OF s] show ?thesis
      proof
        assume "evs1 = [] \<and> (\<exists>e. r3 = Inl e)"
        with st assms(1) show ?thesis by auto
      next
        assume "\<exists>z. evs1 = [ChangeResourceRecordSets z batch]
                  \<and> r3 = change_resource_record_sets w z batch"
        then obtain z where z: "evs1 = [ChangeResourceRecordSets z batch]"
          "r3 = change_resource_record_sets w z batch" by blast
        have "ChangeResourceRecordSets z batch \<in> set evs"
        proof -
          from st assms(1) z(1) have "\<exists>rest. evs = ChangeResourceRecordSets z batch # rest"
            by (auto split: sum.splits prod.splits)
          then show ?thesis by auto
        qed
        with assms(2) z(2) obtain e where e: "r3 = Inl e" by auto
        with st assms(1) z(1) show ?thesis by auto
      qed
    qed
  qed
qed

lemmas pipeline_eval = main_def change_def change_try_def connect_def build_record_set_def
  set_comment_def set_base_changes_def get_env_def validate_action_def validate_record_type_def
  validate_ttl_def ttl_try_def SUPPORTED_ACTIONS_def SUPPORTED_RECORD_TYPES_def DEFAULT_TTL_def
  py_str_def opt_json_def change_record_set_def obtain_request_id_def
  obtain_marshalled_result_def init_def

lemma change_rejecting_world:
  "change rejecting_world init =
    (SystemExit 1, connected\<lparr>rr_skeleton := [(''Changes'', JList [upsert_change])]\<rparr>,
     [ChangeResourceRecordSets (JStr ''Z123'') (JObj [(''Changes'', JList [upsert_change])]),
      StderrWrite (''Route 53 record set change failed: An error occurred (NoSuchHostedZone)''
        @ [CHR 0x0A])])"
  by (simp add: pipeline_eval rejecting_world_def waiting_world_def wait_env_def upsert_env_eval
      rejecting_service_def connected_def upsert_change_def)


lemma stages_rejecting_world:
  "connect rejecting_world init = (Inr (), connected)"
  "build_record_set rejecting_world connected =
     (Inr (JObj [(''Changes'', JList [upsert_change])]),
      connected\<lparr>rr_skeleton := [(''Changes'', JList [upsert_change])]\<rparr>)"
  "change_record_set rejecting_world
     (connected\<lparr>rr_skeleton := [(''Changes'', JList [upsert_change])]\<rparr>)
     (JObj [(''Changes'', JList [upsert_change])]) =
     (Inl (ClientError ''An error occurred (NoSuchHostedZone)''),
      [ChangeResourceRecordSets (JStr ''Z123'') (JObj [(''Changes'', JList [upsert_change])])])"
  by (simp_all add: pipeline_eval rejecting_world_def waiting_world_def wait_env_def
      upsert_env_eval rejecting_service_def connected_def upsert_change_def)

lemma wait_waiting_world:
  "environ waiting_world ''INPUT_AWS_ROUTE53_WAIT'' = Some ''True''"
  "environ pending_world ''INPUT_AWS_ROUTE53_WAIT'' = Some ''True''"
  "lower ''True'' \<in> {''true'', ''1'', ''yes''}"
  "waiter connected = Some ResourceRecordSetsChanged"
  by (simp_all add: waiting_world_def pending_world_def wait_env_def connected_def
      lower_def lower_char_def)

lemma stages_false_world:
  "connect false_world init = (Inr (), connected)"
  "build_record_set false_world connected =
     (Inr (JObj [(''Changes'', JList [upsert_change])]),
      connected\<lparr>rr_skeleton := [(''Changes'', JList [upsert_change])]\<rparr>)"
  "change_record_set false_world (connected\<lparr>rr_skeleton := [(''Changes'', JList [upsert_change])]\<rparr>)
     (JObj [(''Changes'', JList [upsert_change])]) =
     (Inr accepted_result,
      [ChangeResourceRecordSets (JStr ''Z123'') (JObj [(''Changes'', JList [upsert_change])])])"
  "obtain_request_id accepted_result = Inr (JStr ''/change/C1'')"
  by (simp_all add: pipeline_eval false_world_def upsert_env_eval connected_def upsert_change_def
      accepting_service_def accepted_result_def)

lemma lower_false: "lower ''false'' \<notin> {''true'', ''1'', ''yes''}"
  by (simp add: lower_def lower_char_def)


lemma wait_no_stdout:
  assumes "wait w self rid = (r, evs)"
  shows "\<forall>x \<in> set evs. \<forall>out. x \<noteq> StdoutWrite out"
  using wait_events [OF assms] by auto

lemma change_exit:
  "fst (change_try w self) = Inl e \<Longrightarrow> fst (change w self) = SystemExit 1"
  by (cases "change_try w self") (auto simp: change_def)


lemma stages_shapeless_world:
  "connect shapeless_world init = (Inr (), connected)"
  "build_record_set shapeless_world connected =
     (Inr (JObj [(''Changes'', JList [upsert_change])]),
      connected\<lparr>rr_skeleton := [(''Changes'', JList [upsert_change])]\<rparr>)"
  "change_record_set shapeless_world
     (connected\<lparr>rr_skeleton := [(''Changes'', JList [upsert_change])]\<rparr>)
     (JObj [(''Changes'', JList [upsert_change])]) =
     (Inr shapeless_result,
      [ChangeResourceRecordSets (JStr ''Z123'') (JObj [(''Changes'', JList [upsert_change])])])"
  "change_id_field shapeless_result = None"
  by (simp_all add: pipeline_eval shapeless_world_def upsert_env_eval connected_def
      upsert_change_def shapeless_service_def shapeless_result_def change_id_field_def)


lemma succeeds_Inr: "succeeds r \<Longrightarrow> \<exists>v. r = Inr v"
  by (cases r) (auto simp: succeeds_def)

lemma get_env_missing:
  "environ w k = None \<or> environ w k = Some [] \<Longrightarrow>
   get_env (environ w) k True = Inl (NameError (''Cannot find environment variable: '' @ k))"
  by (simp add: get_env_required)

lemma sbc_action:
  assumes "get_env (environ w) ''INPUT_AWS_ROUTE53_RR_ACTION'' True = Inl e"
  shows "set_base_changes w s = (Inl e, s)"
  using assms by (simp add: set_base_changes_def)

lemma sbc_name:
  assumes "action_ok w" and "get_env (environ w) ''INPUT_AWS_ROUTE53_RR_NAME'' True = Inl e"
  shows "set_base_changes w s = (Inl e, s)"
proof -
  from assms(1) obtain a u where
    "get_env (environ w) ''INPUT_AWS_ROUTE53_RR_ACTION'' True = Inr a"
    "validate_action (actions_iter w) (py_str (environ w ''INPUT_AWS_ROUTE53_RR_ACTION'')) = Inr u"
    unfolding action_ok_def by (meson succeeds_Inr)
  moreover from this(1) have "a = environ w ''INPUT_AWS_ROUTE53_RR_ACTION''"
    by (simp add: get_env_required split: if_splits)
  ultimately show ?thesis using assms(2) by (simp add: set_base_changes_def)
qed


lemma get_env_Inr: "get_env env k b = Inr v \<Longrightarrow> v = env k"
  by (auto simp: get_env_def Let_def split: if_splits)

lemma action_okD:
  assumes "action_ok w"
  shows "get_env (environ w) ''INPUT_AWS_ROUTE53_RR_ACTION'' True
           = Inr (environ w ''INPUT_AWS_ROUTE53_RR_ACTION'')"
    and "validate_action (actions_iter w) (py_str (environ w ''INPUT_AWS_ROUTE53_RR_ACTION''))
           = Inr ()"
  using assms unfolding action_ok_def by (auto dest!: succeeds_Inr dest: get_env_Inr)

lemma name_okD:
  assumes "name_ok w"
  shows "get_env (environ w) ''INPUT_AWS_ROUTE53_RR_NAME'' True
           = Inr (environ w ''INPUT_AWS_ROUTE53_RR_NAME'')"
  using assms unfolding name_ok_def by (auto dest!: succeeds_Inr dest: get_env_Inr)

lemma type_okD:
  assumes "type_ok w"
  shows "get_env (environ w) ''INPUT_AWS_ROUTE53_RR_TYPE'' True
           = Inr (environ w ''INPUT_AWS_ROUTE53_RR_TYPE'')"
    and "validate_record_type (record_types_iter w)
           (py_str (environ w ''INPUT_AWS_ROUTE53_RR_TYPE'')) = Inr ()"
  using assms unfolding type_ok_def by (auto dest!: succeeds_Inr dest: get_env_Inr)

lemma ttl_okD:
  assumes "ttl_ok w"
  shows "\<exists>n. validate_ttl (environ w ''INPUT_AWS_ROUTE53_RR_TTL'') = Inr n"
  using assms unfolding ttl_ok_def by (rule succeeds_Inr)

lemma value_okD:
  assumes "value_ok w"
  shows "get_env (environ w) ''INPUT_AWS_ROUTE53_RR_VALUE'' True
           = Inr (environ w ''INPUT_AWS_ROUTE53_RR_VALUE'')"
  using assms unfolding value_ok_def by (auto dest!: succeeds_Inr dest: get_env_Inr)

lemma sbc_type:
  assumes "action_ok w" and "name_ok w"
    and "get_env (environ w) ''INPUT_AWS_ROUTE53_RR_TYPE'' True = Inl e"
  shows "set_base_changes w s = (Inl e, s)"
  using action_okD [OF assms(1)] name_okD [OF assms(2)] assms(3)
  by (simp add: set_base_changes_def)

lemma sbc_value:
  assumes "action_ok w" and "name_ok w" and "type_ok w" and "ttl_ok w"
    and "get_env (environ w) ''INPUT_AWS_ROUTE53_RR_VALUE'' True = Inl e"
  shows "set_base_changes w s = (Inl e, s)"
proof -
  from ttl_okD [OF assms(4)] obtain n where
    "validate_ttl (environ w ''INPUT_AWS_ROUTE53_RR_TTL'') = Inr n" by (elim exE)
  with action_okD [OF assms(1)] name_okD [OF assms(2)] type_okD [OF assms(3)] assms(5)
  show ?thesis by (simp add: set_base_changes_def get_env_optional)
qed

lemma sbc_ok:
  assumes "action_ok w" and "name_ok w" and "type_ok w" and "ttl_ok w" and "value_ok w"
  shows "\<exists>s'. set_base_changes w s = (Inr (), s')"
proof -
  from ttl_okD [OF assms(4)] obtain n where
    "validate_ttl (environ w ''INPUT_AWS_ROUTE53_RR_TTL'') = Inr n" by (elim exE)
  with action_okD [OF assms(1)] name_okD [OF assms(2)] type_okD [OF assms(3)]
    value_okD [OF assms(5)]
  show ?thesis by (simp add: set_base_changes_def get_env_optional)
qed

lemma sbc_fails:
  assumes "get_env (environ w) k True = Inl e0"
    and "k \<in> {''INPUT_AWS_ROUTE53_RR_ACTION'', ''INPUT_AWS_ROUTE53_RR_NAME'',
              ''INPUT_AWS_ROUTE53_RR_TYPE'', ''INPUT_AWS_ROUTE53_RR_VALUE''}"
  shows "\<exists>e. set_base_changes w s = (Inl e, s)"
  using assms by (auto simp: set_base_changes_def split: sum.splits)

lemma sbc_first_failure:
  assumes "get_env (environ w) k True = Inl e"
    and "k \<in> {''INPUT_AWS_ROUTE53_RR_ACTION'', ''INPUT_AWS_ROUTE53_RR_NAME'',
              ''INPUT_AWS_ROUTE53_RR_TYPE'', ''INPUT_AWS_ROUTE53_RR_VALUE''}"
    and "checks_before w k"
  shows "set_base_changes w s = (Inl e, s)"
proof -
  consider "k = ''INPUT_AWS_ROUTE53_RR_ACTION''" | "k = ''INPUT_AWS_ROUTE53_RR_NAME''"
    | "k = ''INPUT_AWS_ROUTE53_RR_TYPE''" | "k = ''INPUT_AWS_ROUTE53_RR_VALUE''"
    using assms(2) by blast
  then show ?thesis
  proof cases
    case 1
    with assms(1) show ?thesis by (simp add: sbc_action)
  next
    case 2
    with assms(3) have "action_ok w" by (simp add: checks_before_def)
    with 2 assms(1) show ?thesis by (simp add: sbc_name)
  next
    case 3
    with assms(3) have "action_ok w" "name_ok w" by (simp_all add: checks_before_def)
    with 3 assms(1) show ?thesis by (simp add: sbc_type)
  next
    case 4
    with assms(3) have "action_ok w" "name_ok w" "type_ok w" "ttl_ok w"
      by (simp_all add: checks_before_def)
    with 4 assms(1) show ?thesis by (simp add: sbc_value)
  qed
qed

lemma set_comment_Inr: "\<exists>s1. set_comment w s = (Inr (), s1)"
  using set_comment_result [of w s] by (cases "set_comment w s") auto

lemma build_fails:
  assumes "get_env (environ w) k True = Inl e0"
    and "k \<in> {''INPUT_AWS_ROUTE53_RR_ACTION'', ''INPUT_AWS_ROUTE53_RR_NAME'',
              ''INPUT_AWS_ROUTE53_RR_TYPE'', ''INPUT_AWS_ROUTE53_RR_VALUE''}"
  shows "\<exists>e s'. build_record_set w s = (Inl e, s')"
proof -
  from set_comment_Inr obtain s1 where c: "set_comment w s = (Inr (), s1)" by blast
  from sbc_fails [OF assms] obtain e where "set_base_changes w s1 = (Inl e, s1)" by blast
  with c show ?thesis by (simp add: build_record_set_def)
qed

lemma build_first_failure:
  assumes "get_env (environ w) k True = Inl e"
    and "k \<in> {''INPUT_AWS_ROUTE53_RR_ACTION'', ''INPUT_AWS_ROUTE53_RR_NAME'',
              ''INPUT_AWS_ROUTE53_RR_TYPE'', ''INPUT_AWS_ROUTE53_RR_VALUE''}"
    and "checks_before w k"
  shows "\<exists>s'. build_record_set w s = (Inl e, s')"
proof -
  from set_comment_Inr obtain s1 where c: "set_comment w s = (Inr (), s1)" by blast
  from sbc_first_failure [OF assms] have "set_base_changes w s1 = (Inl e, s1)" .
  with c show ?thesis by (simp add: build_record_set_def)
qed

lemma build_ok:
  assumes "action_ok w" and "name_ok w" and "type_ok w" and "ttl_ok w" and "value_ok w"
  shows "\<exists>b s'. build_record_set w s = (Inr b, s')"
proof -
  from set_comment_Inr obtain s1 where c: "set_comment w s = (Inr (), s1)" by blast
  from sbc_ok [OF assms] obtain s2 where "set_base_changes w s1 = (Inr (), s2)" by blast
  with c show ?thesis by (simp add: build_record_set_def)
qed

lemma zone_fails:
  assumes "get_env (environ w) ''INPUT_AWS_ROUTE53_HOSTED_ZONE_ID'' True = Inl e"
  shows "change_record_set w s b = (Inl e, [])"
  using assms by (simp add: change_record_set_def)

lemma required_cases:
  assumes "k \<in> set required_keys"
  shows "k \<in> {''INPUT_AWS_ROUTE53_RR_ACTION'', ''INPUT_AWS_ROUTE53_RR_NAME'',
              ''INPUT_AWS_ROUTE53_RR_TYPE'', ''INPUT_AWS_ROUTE53_RR_VALUE''}
         \<or> k = ''INPUT_AWS_ROUTE53_HOSTED_ZONE_ID''"
  using assms by (auto simp: required_keys_def)

lemma change_try_missing:
  assumes "k \<in> set required_keys" and "get_env (environ w) k True = Inl e0"
  shows "\<exists>e s'. change_try w self = (Inl e, s', [])"
proof -
  obtain r1 self1 where c: "connect w self = (r1, self1)" by (cases "connect w self")
  show ?thesis
  proof (cases r1)
    case (Inl e)
    with c show ?thesis by (simp add: change_try_def)
  next
    case r1: (Inr u)
    obtain r2 self2 where b: "build_record_set w self1 = (r2, self2)"
      by (cases "build_record_set w self1")
    show ?thesis
    proof (cases r2)
      case (Inl e)
      with c r1 b show ?thesis by (simp add: change_try_def)
    next
      case r2: (Inr batch)
      from required_cases [OF assms(1)] show ?thesis
      proof
        assume "k \<in> {''INPUT_AWS_ROUTE53_RR_ACTION'', ''INPUT_AWS_ROUTE53_RR_NAME'',
              ''INPUT_AWS_ROUTE53_RR_TYPE'', ''INPUT_AWS_ROUTE53_RR_VALUE''}"
        from build_fails [OF assms(2) this, of self1] b r2 show ?thesis by simp
      next
        assume "k = ''INPUT_AWS_ROUTE53_HOSTED_ZONE_ID''"
        with assms(2) have "change_record_set w self2 batch = (Inl e0, [])"
          by (simp add: zone_fails)
        from change_try_stages [OF c [unfolded r1] b [unfolded r2] this]
        show ?thesis by simp
      qed
    qed
  qed
qed

lemma change_try_first_failure:
  assumes "k \<in> set required_keys" and "get_env (environ w) k True = Inl e"
    and "fst (connect w self) = Inr ()" and "checks_before w k"
  shows "fst (change_try w self) = Inl e"
proof -
  from assms(3) obtain self1 where c: "connect w self = (Inr (), self1)"
    by (cases "connect w self") auto
  from required_cases [OF assms(1)] show ?thesis
  proof
    assume k: "k \<in> {''INPUT_AWS_ROUTE53_RR_ACTION'', ''INPUT_AWS_ROUTE53_RR_NAME'',
              ''INPUT_AWS_ROUTE53_RR_TYPE'', ''INPUT_AWS_ROUTE53_RR_VALUE''}"
    from build_first_failure [OF assms(2) k assms(4), of self1] obtain s' where
      "build_record_set w self1 = (Inl e, s')" by blast
    with c show ?thesis by (simp add: change_try_def)
  next
    assume k: "k = ''INPUT_AWS_ROUTE53_HOSTED_ZONE_ID''"
    with assms(4) have ok: "action_ok w" "name_ok w" "type_ok w" "ttl_ok w" "value_ok w"
      by (simp_all add: checks_before_def)
    from build_ok [OF ok, of self1] obtain b s2 where
      b: "build_record_set w self1 = (Inr b, s2)" by blast
    from k assms(2) have "change_record_set w s2 b = (Inl e, [])" by (simp add: zone_fails)
    from change_try_stages [OF c b this] show ?thesis by simp
  qed
qed


lemmas checks_eval = checks_before_def action_ok_def name_ok_def type_ok_def ttl_ok_def
  value_ok_def succeeds_def required_keys_def


section \<open>The validators\<close>

text \<open>
  C1: a TTL string that \<open>int()\<close> parses to an integer between 0 and 2147483647 is
  returned as that integer; an absent or empty TTL gives the default 300; every other
  string (not parsable, or parsing to an integer outside the range) fails with a
  ValueError, the validation failure. \<open>py_int\<close> is what \<open>int()\<close> parses a string to:
  the spaces it skips include those of Latin-1, so a no-break space before 5 parses
  to 5.
\<close>
theorem validate_ttl_spec:
  "validate_ttl None = Inr 300 \<and> validate_ttl (Some []) = Inr 300 \<and>
   (py_int s = Some n \<and> 0 \<le> n \<and> n \<le> 2147483647 \<longrightarrow> validate_ttl (Some s) = Inr n) \<and>
   (t \<noteq> [] \<and> (py_int t = None \<or> (\<exists>i. py_int t = Some i \<and> (i < 0 \<or> 2147483647 < i)))
      \<longrightarrow> (\<exists>m. validate_ttl (Some t) = Inl (ValueError m)
                \<and> kind_of (ValueError m) = InvalidInput))"
proof -
  have a: "validate_ttl None = Inr 300" "validate_ttl (Some []) = Inr 300"
    by (simp_all add: validate_ttl_def ttl_try_def DEFAULT_TTL_def)
  have b: "validate_ttl (Some s) = Inr n" if "py_int s = Some n" "0 \<le> n" "n \<le> 2147483647"
  proof -
    from that(1) have "s \<noteq> []" using py_int_Nil by auto
    moreover from that(1) have "int_str s = Inr n" by (rule py_int_Some)
    ultimately show ?thesis using that(2,3) by (simp add: validate_ttl_def ttl_try_def)
  qed
  have c: "\<exists>m. validate_ttl (Some t) = Inl (ValueError m)"
    if "t \<noteq> []" "py_int t = None \<or> (\<exists>i. py_int t = Some i \<and> (i < 0 \<or> 2147483647 < i))"
    using that(2)
  proof
    assume "py_int t = None"
    then obtain m where "int_str t = Inl m" using py_int_None by blast
    with that(1) show ?thesis by (simp add: validate_ttl_def ttl_try_def)
  next
    assume "\<exists>i. py_int t = Some i \<and> (i < 0 \<or> 2147483647 < i)"
    then obtain i where i: "py_int t = Some i" "i < 0 \<or> 2147483647 < i" by blast
    from i(1) have "int_str t = Inr i" by (rule py_int_Some)
    with that(1) i(2) show ?thesis by (auto simp: validate_ttl_def ttl_try_def)
  qed
  from a b c show ?thesis by simp
qed

theorem validate_ttl_spec_witness:
  "py_int ''3600'' = Some 3600 \<and> validate_ttl (Some ''3600'') = Inr 3600 \<and>
   py_int ''-1'' = Some (- 1) \<and>
   validate_ttl (Some ''-1'') = Inl (ValueError (''Invalid TTL value '' @ sq ''-1''
      @ '': TTL must be between 0 and 2147483647'')) \<and>
   py_int [CHR 0xA0, CHR ''5''] = Some 5 \<and> validate_ttl (Some [CHR 0xA0, CHR ''5'']) = Inr 5 \<and>
   py_int ''abc'' = None \<and>
   validate_ttl (Some ''abc'') = Inl (ValueError (''Invalid TTL value '' @ sq ''abc''
      @ '': invalid literal for int() with base 10: '' @ sq ''abc''))"
proof -
  have p: "py_int ''3600'' = Some 3600" "py_int ''-1'' = Some (- 1)"
    "py_int [CHR 0xA0, CHR ''5''] = Some 5" "py_int ''abc'' = None"
    by (simp_all add: py_int_eval)
  have m: "validate_ttl (Some ''-1'') = Inl (ValueError (''Invalid TTL value '' @ sq ''-1''
      @ '': TTL must be between 0 and 2147483647''))"
    "validate_ttl (Some ''abc'') = Inl (ValueError (''Invalid TTL value '' @ sq ''abc''
      @ '': invalid literal for int() with base 10: '' @ sq ''abc''))"
    by (simp_all add: validate_ttl_def ttl_try_def py_int_eval py_repr_def repr_char_def sq_def
        py_str_def)
  from validate_ttl_spec [of "''3600''" 3600 "''-1''"]
    validate_ttl_spec [of "[CHR 0xA0, CHR ''5'']" 5 "''abc''"] p m
  show ?thesis by simp
qed

text \<open>
  C2: the action validator succeeds exactly on CREATE, DELETE and UPSERT, the record-type
  validator exactly on the ten supported types; on any other string each fails with a
  ValueError whose message contains the offending value and every allowed value,
  whatever the order in which the run iterates the set.
\<close>
theorem validators_spec:
  assumes "set aorder = SUPPORTED_ACTIONS" and "set torder = SUPPORTED_RECORD_TYPES"
  shows "((validate_action aorder s = Inr ()) \<longleftrightarrow> s \<in> {''CREATE'', ''DELETE'', ''UPSERT''}) \<and>
    ((validate_record_type torder s = Inr ()) \<longleftrightarrow>
       s \<in> {''SOA'', ''A'', ''TXT'', ''NS'', ''CNAME'', ''MX'', ''PTR'', ''SRV'', ''SPF'', ''AAAA''}) \<and>
    (s \<notin> {''CREATE'', ''DELETE'', ''UPSERT''} \<longrightarrow>
       (\<exists>m. validate_action aorder s = Inl (ValueError m) \<and> kind_of (ValueError m) = InvalidInput
          \<and> (\<exists>p q. m = p @ s @ q)
          \<and> (\<forall>a \<in> {''CREATE'', ''DELETE'', ''UPSERT''}. \<exists>p q. m = p @ a @ q))) \<and>
    (s \<notin> {''SOA'', ''A'', ''TXT'', ''NS'', ''CNAME'', ''MX'', ''PTR'', ''SRV'', ''SPF'', ''AAAA''} \<longrightarrow>
       (\<exists>m. validate_record_type torder s = Inl (ValueError m) \<and> kind_of (ValueError m) = InvalidInput
          \<and> (\<exists>p q. m = p @ s @ q)
          \<and> (\<forall>a \<in> {''SOA'', ''A'', ''TXT'', ''NS'', ''CNAME'', ''MX'', ''PTR'', ''SRV'', ''SPF'', ''AAAA''}.
                \<exists>p q. m = p @ a @ q)))"
proof -
  let ?A = "{''CREATE'', ''DELETE'', ''UPSERT''}"
  let ?T = "{''SOA'', ''A'', ''TXT'', ''NS'', ''CNAME'', ''MX'', ''PTR'', ''SRV'', ''SPF'', ''AAAA''}"
  have A: "SUPPORTED_ACTIONS = ?A" by (simp add: SUPPORTED_ACTIONS_def)
  have T: "SUPPORTED_RECORD_TYPES = ?T" by (simp add: SUPPORTED_RECORD_TYPES_def)
  have 1: "(validate_action aorder s = Inr ()) \<longleftrightarrow> s \<in> ?A"
    unfolding A [symmetric] by (simp add: validate_action_def)
  have 2: "(validate_record_type torder s = Inr ()) \<longleftrightarrow> s \<in> ?T"
    unfolding T [symmetric] by (simp add: validate_record_type_def)
  have 3: "\<exists>m. validate_action aorder s = Inl (ValueError m) \<and> kind_of (ValueError m) = InvalidInput
          \<and> (\<exists>p q. m = p @ s @ q) \<and> (\<forall>a \<in> ?A. \<exists>p q. m = p @ a @ q)" if "s \<notin> ?A"
  proof -
    let ?m = "''Unsupported action: '' @ s @ ''. Supported actions: '' @ join '', '' aorder"
    from that have v: "validate_action aorder s = Inl (ValueError ?m)"
      unfolding A [symmetric] by (simp add: validate_action_def)
    have n: "\<exists>p q. ?m = p @ s @ q" by blast
    have k: "kind_of (ValueError ?m) = InvalidInput" by simp
    have "\<exists>p q. ?m = p @ a @ q" if "a \<in> ?A" for a
    proof -
      from that assms(1) A have "a \<in> set aorder" by simp
      from join_names [OF this] obtain p q where "join '', '' aorder = p @ a @ q" by blast
      then have "?m = (''Unsupported action: '' @ s @ ''. Supported actions: '' @ p) @ a @ q"
        by simp
      then show ?thesis by blast
    qed
    then have "\<forall>a \<in> ?A. \<exists>p q. ?m = p @ a @ q" by (rule ballI)
    with v n k show ?thesis by blast
  qed
  have 4: "\<exists>m. validate_record_type torder s = Inl (ValueError m) \<and> kind_of (ValueError m) = InvalidInput
          \<and> (\<exists>p q. m = p @ s @ q) \<and> (\<forall>a \<in> ?T. \<exists>p q. m = p @ a @ q)" if "s \<notin> ?T"
  proof -
    let ?m = "''Unsupported record type: '' @ s @ ''. Supported types: '' @ join '', '' torder"
    from that have v: "validate_record_type torder s = Inl (ValueError ?m)"
      unfolding T [symmetric] by (simp add: validate_record_type_def)
    have n: "\<exists>p q. ?m = p @ s @ q" by blast
    have k: "kind_of (ValueError ?m) = InvalidInput" by simp
    have "\<exists>p q. ?m = p @ a @ q" if "a \<in> ?T" for a
    proof -
      from that assms(2) T have "a \<in> set torder" by simp
      from join_names [OF this] obtain p q where "join '', '' torder = p @ a @ q" by blast
      then have "?m = (''Unsupported record type: '' @ s @ ''. Supported types: '' @ p) @ a @ q"
        by simp
      then show ?thesis by blast
    qed
    then have "\<forall>a \<in> ?T. \<exists>p q. ?m = p @ a @ q" by (rule ballI)
    with v n k show ?thesis by blast
  qed
  from 1 2 3 4 show ?thesis by blast
qed

theorem validators_spec_witness:
  "set (actions_iter upsert_world) = SUPPORTED_ACTIONS \<and>
   set (record_types_iter upsert_world) = SUPPORTED_RECORD_TYPES \<and>
   validate_action (actions_iter upsert_world) ''DELETE'' = Inr () \<and>
   validate_record_type (record_types_iter upsert_world) ''DELETE'' \<noteq> Inr ()"
proof -
  have a: "set (actions_iter upsert_world) = SUPPORTED_ACTIONS"
    by (simp add: upsert_world_def SUPPORTED_ACTIONS_def)
  have t: "set (record_types_iter upsert_world) = SUPPORTED_RECORD_TYPES"
    by (simp add: upsert_world_def SUPPORTED_RECORD_TYPES_def)
  from validators_spec [OF a t, of "''DELETE''"] a t show ?thesis by simp
qed


section \<open>The request builder\<close>



text \<open>
  C4: when the comment key is absent, the batch built by a fresh instance has no
  Comment key at all: looking it up raises KeyError.
\<close>
theorem comment_omitted:
  assumes "environ w ''INPUT_AWS_ROUTE53_RR_COMMENT'' = None"
    and "build_record_set w init = (r, self')"
  shows "''Comment'' \<notin> fst ` set (rr_skeleton self') \<and>
         (\<forall>b. r = Inr b \<longrightarrow> b = JObj (rr_skeleton self') \<and> getitem b ''Comment'' = Inl (KeyError ''Comment''))"
proof -
  have sc: "set_comment w init = (Inr (), init)"
    using assms(1) by (rule set_comment_absent)
  have k: "map_of (rr_skeleton self') ''Comment'' = None"
  proof (cases "set_base_changes w init")
    case (Pair r2 self2)
    show ?thesis
    proof (cases r2)
      case (Inl e)
      with Pair have "self2 = init" using set_base_changes_Inl by blast
      with Pair Inl sc assms(2) have "self' = init" by (simp add: build_record_set_def)
      then show ?thesis by (simp add: init_def)
    next
      case (Inr u)
      with Pair set_base_changes_Inr obtain c where
        c: "rr_skeleton self2 = setitem (rr_skeleton init) ''Changes'' (JList [c])" by blast
      from Pair Inr sc assms(2) have "self' = self2" by (simp add: build_record_set_def)
      with c show ?thesis by (simp add: init_def)
    qed
  qed
  then have 1: "''Comment'' \<notin> fst ` set (rr_skeleton self')"
    by (simp add: map_of_eq_None_iff)
  have 2: "b = JObj (rr_skeleton self')" if "r = Inr b" for b
    using that assms(2) build_record_set_Inr by blast
  from 1 2 k show ?thesis by auto
qed

theorem comment_omitted_witness:
  "environ upsert_world ''INPUT_AWS_ROUTE53_RR_COMMENT'' = None \<and>
   (\<exists>b self'. build_record_set upsert_world init = (Inr b, self') \<and>
      getitem b ''Comment'' = Inl (KeyError ''Comment''))"
proof -
  have e: "environ upsert_world ''INPUT_AWS_ROUTE53_RR_COMMENT'' = None"
    by (simp add: upsert_env_eval)
  obtain r self' where b: "build_record_set upsert_world init = (r, self')"
    by (cases "build_record_set upsert_world init")
  from build_upsert_world b obtain b' where r: "r = Inr b'" by auto
  from comment_omitted [OF e b] r b e show ?thesis by blast
qed

section \<open>The pipeline\<close>

text \<open>
  C5: in a run of \<open>change\<close> in which no submission was accepted (every call of the
  service's change operation raised), the process exits with status 1 and the run holds
  no status lookup and no sleep: the waiter is not reached. When the submission stage
  raises, the \<open>try\<close> body ends with that exception and the events of the submission
  alone.
\<close>
theorem submission_failure_skips_waiter:
  "(change w self = (out, self', evs) \<and>
    (\<forall>zone batch. ChangeResourceRecordSets zone batch \<in> set evs
        \<longrightarrow> (\<exists>e. change_resource_record_sets w zone batch = Inl e))
    \<longrightarrow> out = SystemExit 1 \<and> polls evs = 0 \<and> (\<forall>rid. GetChange rid \<notin> set evs)
        \<and> (\<forall>d. Sleep d \<notin> set evs)) \<and>
   (connect w self = (Inr u, self1) \<and> build_record_set w self1 = (Inr batch, self2) \<and>
    change_record_set w self2 batch = (Inl e, evs1)
    \<longrightarrow> change_try w self = (Inl e, self2, evs1) \<and> polls evs1 = 0)"
proof (rule conjI; rule impI)
  assume a: "change w self = (out, self', evs) \<and>
    (\<forall>zone batch. ChangeResourceRecordSets zone batch \<in> set evs
        \<longrightarrow> (\<exists>e. change_resource_record_sets w zone batch = Inl e))"
  obtain r s t where ct: "change_try w self = (r, s, t)" by (cases "change_try w self") auto
  show "out = SystemExit 1 \<and> polls evs = 0 \<and> (\<forall>rid. GetChange rid \<notin> set evs)
        \<and> (\<forall>d. Sleep d \<notin> set evs)"
  proof (cases r)
    case (Inl e)
    with ct a have ev: "evs = t @ [StderrWrite (''Route 53 record set change failed: ''
        @ str_exc e @ [CHR 0x0A])]" and out: "out = SystemExit 1"
      by (auto simp: change_def)
    from ev a have "\<forall>zone batch. ChangeResourceRecordSets zone batch \<in> set t
        \<longrightarrow> (\<exists>e. change_resource_record_sets w zone batch = Inl e)" by auto
    from change_try_quiet [OF ct this] have q: "\<forall>x \<in> set t. \<not> is_poll x \<and> \<not> is_sleep x" by blast
    with ev have q': "\<forall>x \<in> set evs. \<not> is_poll x \<and> \<not> is_sleep x" by auto
    then have "filter is_poll evs = []" by (simp add: filter_empty_conv)
    then have "polls evs = 0" by (simp add: polls_def)
    moreover from q' have "\<forall>rid. GetChange rid \<notin> set evs" by force
    moreover from q' have "\<forall>d. Sleep d \<notin> set evs" by force
    ultimately show ?thesis using out by blast
  next
    case (Inr v)
    with ct a have "evs = t" by (auto simp: change_def)
    with a have "\<forall>zone batch. ChangeResourceRecordSets zone batch \<in> set t
        \<longrightarrow> (\<exists>e. change_resource_record_sets w zone batch = Inl e)" by auto
    from change_try_quiet [OF ct this] Inr show ?thesis by auto
  qed
next
  assume a: "connect w self = (Inr u, self1) \<and> build_record_set w self1 = (Inr batch, self2) \<and>
    change_record_set w self2 batch = (Inl e, evs1)"
  then have "change_try w self = (Inl e, self2, evs1)"
    using change_try_stages [of w self u self1 batch self2 "Inl e" evs1] by simp
  moreover from a change_record_set_events [of w self2 batch "Inl e" evs1]
  have "polls evs1 = 0" by (auto simp: polls_def)
  ultimately show "change_try w self = (Inl e, self2, evs1) \<and> polls evs1 = 0" by simp
qed

theorem submission_failure_skips_waiter_witness:
  "fst (change rejecting_world init) = SystemExit 1
   \<and> polls (snd (snd (change rejecting_world init))) = 0
   \<and> change_record_set rejecting_world
        (connected\<lparr>rr_skeleton := [(''Changes'', JList [upsert_change])]\<rparr>)
        (JObj [(''Changes'', JList [upsert_change])])
      = (Inl (ClientError ''An error occurred (NoSuchHostedZone)''),
         [ChangeResourceRecordSets (JStr ''Z123'') (JObj [(''Changes'', JList [upsert_change])])])
   \<and> fst (change_try rejecting_world init)
      = Inl (ClientError ''An error occurred (NoSuchHostedZone)'')"
proof -
  let ?batch = "JObj [(''Changes'', JList [upsert_change])]"
  let ?self2 = "connected\<lparr>rr_skeleton := [(''Changes'', JList [upsert_change])]\<rparr>"
  let ?evs1 = "[ChangeResourceRecordSets (JStr ''Z123'') ?batch]"
  let ?evs = "[ChangeResourceRecordSets (JStr ''Z123'') ?batch,
      StderrWrite (''Route 53 record set change failed: An error occurred (NoSuchHostedZone)''
        @ [CHR 0x0A])]"
  have h: "\<forall>zone batch. ChangeResourceRecordSets zone batch \<in> set ?evs
        \<longrightarrow> (\<exists>e. change_resource_record_sets rejecting_world zone batch = Inl e)"
    by (simp add: rejecting_world_def rejecting_service_def)
  note t = submission_failure_skips_waiter [of rejecting_world init "SystemExit 1" ?self2 ?evs
      "()" connected ?batch ?self2 "ClientError ''An error occurred (NoSuchHostedZone)''" ?evs1]
  from t change_rejecting_world h have 1: "fst (change rejecting_world init) = SystemExit 1
   \<and> polls (snd (snd (change rejecting_world init))) = 0" by simp
  from t stages_rejecting_world have 2: "fst (change_try rejecting_world init)
      = Inl (ClientError ''An error occurred (NoSuchHostedZone)'')" by simp
  from 1 2 stages_rejecting_world(3) show ?thesis by simp
qed

text \<open>
  C6: when the wait flag is true, 1 or yes in any letter case, \<open>_wait\<close> makes at most 50
  status lookups, sleeping 10 between two lookups and at no other time. When none of
  the first 50 lookups reports INSYNC it raises WaiterError after exactly 50 lookups,
  which is not the ClientError of a failed submission; when lookup number \<open>j\<close> is the
  first to report INSYNC it returns after \<open>j + 1\<close> lookups.
\<close>
theorem waiter_budget:
  assumes "environ w ''INPUT_AWS_ROUTE53_WAIT'' = Some s"
    and "lower s \<in> {''true'', ''1'', ''yes''}"
    and "waiter self = Some wt"
    and "wait w self rid = (r, evs)"
  shows "polls evs \<le> 50 \<and>
    (\<forall>x \<in> set evs. x = GetChange rid \<or> x = Sleep 10) \<and>
    length (filter is_sleep evs) = polls evs - 1 \<and>
    ((\<forall>k<50. get_change w rid k \<noteq> INSYNC) \<longrightarrow>
       r = Inl (WaiterError ''Max attempts exceeded'') \<and> polls evs = 50 \<and>
       kind_of (WaiterError ''Max attempts exceeded'') = WaitTimeoutError \<and>
       WaitTimeoutError \<noteq> RemoteServiceError \<and> (\<forall>m. r \<noteq> Inl (ClientError m))) \<and>
    (\<forall>j<50. get_change w rid j = INSYNC \<and> (\<forall>i<j. get_change w rid i \<noteq> INSYNC) \<longrightarrow>
       r = Inr () \<and> polls evs = Suc j)"
proof -
  let ?p = "poll (get_change w rid) rid 10 50 0"
  from wait_requested [OF assms(1-3)] assms(4) have p: "?p = (r, evs)" by simp
  then have r: "fst ?p = r" and e: "snd ?p = evs" by simp_all
  have 1: "polls evs \<le> 50" using poll_count [of "get_change w rid" rid 10 50 0] e by simp
  have 2: "\<forall>x \<in> set evs. x = GetChange rid \<or> x = Sleep 10"
    using poll_events [of _ "get_change w rid" rid 10 50 0] e by auto
  have 3: "length (filter is_sleep evs) = polls evs - 1"
    using poll_sleeps [of "get_change w rid" rid 10 50 0] e by simp
  have 4: "r = Inl (WaiterError ''Max attempts exceeded'') \<and> polls evs = 50"
    if "\<forall>k<50. get_change w rid k \<noteq> INSYNC"
    using poll_timeout [of 50 "get_change w rid" 0 rid 10] that r e by simp
  have 5: "r = Inr () \<and> polls evs = Suc j"
    if "j < 50" "get_change w rid j = INSYNC" "\<forall>i<j. get_change w rid i \<noteq> INSYNC" for j
    using poll_success [of j 50 "get_change w rid" 0 rid 10] that r e by simp
  from 1 2 3 4 5 show ?thesis by auto
qed
theorem waiter_budget_witness:
  "get_change pending_world (JStr ''/change/C1'') 49 = PENDING \<and>
   fst (wait pending_world connected (JStr ''/change/C1''))
     = Inl (WaiterError ''Max attempts exceeded'') \<and>
   polls (snd (wait pending_world connected (JStr ''/change/C1''))) = 50 \<and>
   get_change waiting_world (JStr ''/change/C1'') 2 = PENDING \<and>
   get_change waiting_world (JStr ''/change/C1'') 3 = INSYNC \<and>
   fst (wait waiting_world connected (JStr ''/change/C1'')) = Inr () \<and>
   polls (snd (wait waiting_world connected (JStr ''/change/C1''))) = 4"
proof -
  let ?rid = "JStr ''/change/C1''"
  have a: "\<forall>k<50. get_change pending_world ?rid k \<noteq> INSYNC"
    by (simp add: pending_world_def)
  have b: "get_change waiting_world ?rid 3 = INSYNC"
    "\<forall>i<3. get_change waiting_world ?rid i \<noteq> INSYNC"
    by (simp_all add: waiting_world_def upsert_world_def)
  have p: "wait pending_world connected ?rid =
      (fst (wait pending_world connected ?rid), snd (wait pending_world connected ?rid))"
    by simp
  have q: "wait waiting_world connected ?rid =
      (fst (wait waiting_world connected ?rid), snd (wait waiting_world connected ?rid))"
    by simp
  from waiter_budget [OF wait_waiting_world(2) wait_waiting_world(3) wait_waiting_world(4) p] a
  have 1: "fst (wait pending_world connected ?rid) = Inl (WaiterError ''Max attempts exceeded'')
     \<and> polls (snd (wait pending_world connected ?rid)) = 50" by blast
  from waiter_budget [OF wait_waiting_world(1) wait_waiting_world(3) wait_waiting_world(4) q]
  have "\<forall>j<50. get_change waiting_world ?rid j = INSYNC
          \<and> (\<forall>i<j. get_change waiting_world ?rid i \<noteq> INSYNC) \<longrightarrow>
       fst (wait waiting_world connected ?rid) = Inr ()
       \<and> polls (snd (wait waiting_world connected ?rid)) = Suc j" by blast
  then have "(3::nat) < 50 \<longrightarrow> get_change waiting_world ?rid 3 = INSYNC
          \<and> (\<forall>i<3. get_change waiting_world ?rid i \<noteq> INSYNC) \<longrightarrow>
       fst (wait waiting_world connected ?rid) = Inr ()
       \<and> polls (snd (wait waiting_world connected ?rid)) = Suc 3" by blast
  with b have 2: "fst (wait waiting_world connected ?rid) = Inr ()
     \<and> polls (snd (wait waiting_world connected ?rid)) = 4" by simp
  have c: "get_change pending_world ?rid 49 = PENDING" "get_change waiting_world ?rid 2 = PENDING"
    by (simp_all add: pending_world_def waiting_world_def upsert_world_def)
  from b c 1 2 show ?thesis by simp
qed

text \<open>
  C7, as the code has it: when the wait flag is absent, or is any string other than
  true, 1 or yes in any letter case (the empty string included), \<open>_wait\<close> returns at
  once with no event. A run whose submission returned then ends with exit status 0 when
  the change identifier and the response metadata can be read from the response, its
  events being the submission and the write to standard output, and with exit status 1
  when either cannot be read; it makes no status lookup in either case.
\<close>
theorem no_wait_requested:
  assumes "environ w ''INPUT_AWS_ROUTE53_WAIT'' = None \<or>
     (\<exists>s. environ w ''INPUT_AWS_ROUTE53_WAIT'' = Some s \<and> lower s \<notin> {''true'', ''1'', ''yes''})"
  shows "wait w self rid = (Inr (), []) \<and>
    (connect w init = (Inr u, self1) \<and> build_record_set w self1 = (Inr batch, self2) \<and>
     change_record_set w self2 batch = (Inr res, evs1) \<and>
     obtain_request_id res = Inr request_id \<and> obtain_marshalled_result res = Inr output
     \<longrightarrow> main w = (0, evs1 @ [StdoutWrite (output @ [CHR 0x0A])])
         \<and> polls (evs1 @ [StdoutWrite (output @ [CHR 0x0A])]) = 0
         \<and> (\<exists>zone. evs1 = [ChangeResourceRecordSets zone batch])) \<and>
    (connect w init = (Inr u, self1) \<and> build_record_set w self1 = (Inr batch, self2) \<and>
     change_record_set w self2 batch = (Inr res, evs1) \<and>
     ((\<exists>e. obtain_request_id res = Inl e) \<or> (\<exists>e. obtain_marshalled_result res = Inl e))
     \<longrightarrow> fst (main w) = 1 \<and> polls (snd (main w)) = 0)"
proof -
  have 1: "wait w self rid = (Inr (), [])" using assms by (rule wait_not_requested)
  have 2: "connect w init = (Inr u, self1) \<and> build_record_set w self1 = (Inr batch, self2) \<and>
     change_record_set w self2 batch = (Inr res, evs1) \<and>
     obtain_request_id res = Inr request_id \<and> obtain_marshalled_result res = Inr output
     \<longrightarrow> main w = (0, evs1 @ [StdoutWrite (output @ [CHR 0x0A])])
         \<and> polls (evs1 @ [StdoutWrite (output @ [CHR 0x0A])]) = 0
         \<and> (\<exists>zone. evs1 = [ChangeResourceRecordSets zone batch])"
  proof
    assume a: "connect w init = (Inr u, self1) \<and> build_record_set w self1 = (Inr batch, self2) \<and>
     change_record_set w self2 batch = (Inr res, evs1) \<and>
     obtain_request_id res = Inr request_id \<and> obtain_marshalled_result res = Inr output"
    have wt: "wait w self2 request_id = (Inr (), [])" using assms by (rule wait_not_requested)
    from a have "change_try w init = (Inr (), self2, evs1 @ [StdoutWrite (output @ [CHR 0x0A])])"
      using change_try_stages [of w init u self1 batch self2 "Inr res" evs1] wt by simp
    then have m: "main w = (0, evs1 @ [StdoutWrite (output @ [CHR 0x0A])])"
      by (simp add: main_def change_def)
    from a change_record_set_events [of w self2 batch "Inr res" evs1]
    have z: "\<exists>zone. evs1 = [ChangeResourceRecordSets zone batch]" by auto
    then have "polls (evs1 @ [StdoutWrite (output @ [CHR 0x0A])]) = 0"
      by (auto simp: polls_def)
    with m z show "main w = (0, evs1 @ [StdoutWrite (output @ [CHR 0x0A])])
         \<and> polls (evs1 @ [StdoutWrite (output @ [CHR 0x0A])]) = 0
         \<and> (\<exists>zone. evs1 = [ChangeResourceRecordSets zone batch])" by simp
  qed
  have 3: "connect w init = (Inr u, self1) \<and> build_record_set w self1 = (Inr batch, self2) \<and>
     change_record_set w self2 batch = (Inr res, evs1) \<and>
     ((\<exists>e. obtain_request_id res = Inl e) \<or> (\<exists>e. obtain_marshalled_result res = Inl e))
     \<longrightarrow> fst (main w) = 1 \<and> polls (snd (main w)) = 0"
  proof (rule impI, (erule conjE)+)
    assume st: "connect w init = (Inr u, self1)" "build_record_set w self1 = (Inr batch, self2)"
      "change_record_set w self2 batch = (Inr res, evs1)"
      and miss: "(\<exists>e. obtain_request_id res = Inl e) \<or> (\<exists>e. obtain_marshalled_result res = Inl e)"
    note ct = change_try_stages [OF st]
    from change_record_set_events [OF st(3)] have p1: "polls evs1 = 0"
      by (auto simp: polls_def)
    have "\<exists>e. change_try w init = (Inl e, self2, evs1)"
    proof (cases "obtain_request_id res")
      case (Inl e)
      with ct have "change_try w init = (Inl e, self2, evs1)" by simp
      then show ?thesis by (rule exI)
    next
      case (Inr request_id)
      with miss obtain e where m: "obtain_marshalled_result res = Inl e" by auto
      have wt: "wait w self2 request_id = (Inr (), [])" using assms by (rule wait_not_requested)
      from ct Inr wt m have "change_try w init = (Inl e, self2, evs1)" by simp
      then show ?thesis by (rule exI)
    qed
    then obtain e where "change_try w init = (Inl e, self2, evs1)" by (elim exE)
    then have "main w = (1, evs1 @ [StderrWrite (''Route 53 record set change failed: ''
        @ str_exc e @ [CHR 0x0A])])"
      by (simp add: main_def change_def)
    with p1 show "fst (main w) = 1 \<and> polls (snd (main w)) = 0"
      by (simp add: polls_def)
  qed
  show ?thesis by (rule conjI [OF 1 conjI [OF 2 3]])
qed

theorem no_wait_requested_witness:
  "environ false_world ''INPUT_AWS_ROUTE53_WAIT'' = Some ''false'' \<and>
   lower ''false'' \<notin> {''true'', ''1'', ''yes''} \<and>
   wait false_world connected (JStr ''/change/C1'') = (Inr (), []) \<and>
   fst (main false_world) = 0 \<and> polls (snd (main false_world)) = 0 \<and>
   environ shapeless_world ''INPUT_AWS_ROUTE53_WAIT'' = None \<and>
   obtain_request_id shapeless_result = Inl (KeyError ''Id'') \<and>
   fst (main shapeless_world) = 1 \<and> polls (snd (main shapeless_world)) = 0"
proof -
  let ?batch = "JObj [(''Changes'', JList [upsert_change])]"
  let ?self2 = "connected\<lparr>rr_skeleton := [(''Changes'', JList [upsert_change])]\<rparr>"
  let ?evs1 = "[ChangeResourceRecordSets (JStr ''Z123'') ?batch]"
  have e: "environ false_world ''INPUT_AWS_ROUTE53_WAIT'' = Some ''false''"
    by (simp add: false_world_def)
  with lower_false have h: "environ false_world ''INPUT_AWS_ROUTE53_WAIT'' = None \<or>
     (\<exists>s. environ false_world ''INPUT_AWS_ROUTE53_WAIT'' = Some s
          \<and> lower s \<notin> {''true'', ''1'', ''yes''})" by blast
  have o: "obtain_marshalled_result accepted_result
     = Inr (dumps 0 (JObj [(''RequestId'', JStr ''r-1''), (''HTTPStatusCode'', JInt 200)]))"
    by (simp add: obtain_marshalled_result_def accepted_result_def)
  from no_wait_requested [OF h, of connected "JStr ''/change/C1''" "()" connected ?batch ?self2
      accepted_result ?evs1 "JStr ''/change/C1''"
      "dumps 0 (JObj [(''RequestId'', JStr ''r-1''), (''HTTPStatusCode'', JInt 200)])"]
    stages_false_world o e lower_false
  have 1: "wait false_world connected (JStr ''/change/C1'') = (Inr (), []) \<and>
   fst (main false_world) = 0 \<and> polls (snd (main false_world)) = 0" by simp
  have n: "environ shapeless_world ''INPUT_AWS_ROUTE53_WAIT'' = None"
    by (simp add: shapeless_world_def upsert_env_eval)
  then have h': "environ shapeless_world ''INPUT_AWS_ROUTE53_WAIT'' = None \<or>
     (\<exists>s. environ shapeless_world ''INPUT_AWS_ROUTE53_WAIT'' = Some s
          \<and> lower s \<notin> {''true'', ''1'', ''yes''})" by (rule disjI1)
  have i: "obtain_request_id shapeless_result = Inl (KeyError ''Id'')"
    by (simp add: obtain_request_id_def shapeless_result_def)
  from no_wait_requested [OF h', of connected "JStr ''/change/C1''" "()" connected ?batch ?self2
      shapeless_result ?evs1]
    stages_shapeless_world i
  have 2: "fst (main shapeless_world) = 1 \<and> polls (snd (main shapeless_world)) = 0" by simp
  from e lower_false 1 n i 2 show ?thesis by simp
qed

text \<open>
  C7 does not hold of every submission that returns: with the wait flag absent and a
  service whose answer lacks the change identifier, the submission is made and returns,
  and the run ends with exit status 1.
\<close>

theorem no_wait_counterexample:
  "environ shapeless_world ''INPUT_AWS_ROUTE53_WAIT'' = None \<and>
   change_resource_record_sets shapeless_world (JStr ''Z123'')
     (JObj [(''Changes'', JList [upsert_change])]) = Inr shapeless_result \<and>
   main shapeless_world =
     (1, [ChangeResourceRecordSets (JStr ''Z123'') (JObj [(''Changes'', JList [upsert_change])]),
          StderrWrite (''Route 53 record set change failed: '' @ sq ''Id'' @ [CHR 0x0A])])"
  by (simp add: pipeline_eval shapeless_world_def upsert_env_eval shapeless_service_def
      shapeless_result_def upsert_change_def py_repr_def repr_char_def sq_def Let_def)

text \<open>
  C8: a response in which the field Id of the field ChangeInfo cannot be read makes
  \<open>_obtain_request_id\<close> raise, and one without the field ResponseMetadata makes
  \<open>_obtain_marshalled_result\<close> raise: KeyError naming the missing key when the
  subscripted value is a dict, TypeError otherwise; no default value is returned. A run
  whose submission returned such a response ends in an exception, writes nothing to
  standard output and exits with status 1.
\<close>
theorem extraction_failure_fatal:
  "(change_id_field res = None \<longrightarrow>
      (\<exists>e. obtain_request_id res = Inl e \<and> kind_of e = UnexpectedResponseShape)) \<and>
   (field res ''ResponseMetadata'' = None \<longrightarrow>
      (\<exists>e. obtain_marshalled_result res = Inl e \<and> kind_of e = UnexpectedResponseShape)) \<and>
   (res = JObj d \<and> map_of d ''ChangeInfo'' = None \<longrightarrow>
      obtain_request_id res = Inl (KeyError ''ChangeInfo'')) \<and>
   (res = JObj d \<and> map_of d ''ChangeInfo'' = Some (JObj c) \<and> map_of c ''Id'' = None \<longrightarrow>
      obtain_request_id res = Inl (KeyError ''Id'')) \<and>
   (res = JObj d \<and> map_of d ''ResponseMetadata'' = None \<longrightarrow>
      obtain_marshalled_result res = Inl (KeyError ''ResponseMetadata'')) \<and>
   (connect w self = (Inr u, self1) \<and> build_record_set w self1 = (Inr batch, self2) \<and>
    change_record_set w self2 batch = (Inr res, evs1) \<and>
    (change_id_field res = None \<or> field res ''ResponseMetadata'' = None) \<longrightarrow>
      (\<exists>e evs. change_try w self = (Inl e, self2, evs) \<and>
         (\<forall>x \<in> set evs. \<forall>out. x \<noteq> StdoutWrite out) \<and>
         (change_id_field res = None \<longrightarrow> kind_of e = UnexpectedResponseShape)) \<and>
      fst (change w self) = SystemExit 1)"
proof -
  have 1: "change_id_field res = None \<longrightarrow>
      (\<exists>e. obtain_request_id res = Inl e \<and> kind_of e = UnexpectedResponseShape)"
    using obtain_request_id_missing by blast
  have 2: "field res ''ResponseMetadata'' = None \<longrightarrow>
      (\<exists>e. obtain_marshalled_result res = Inl e \<and> kind_of e = UnexpectedResponseShape)"
    using obtain_marshalled_result_missing by blast
  have 3: "res = JObj d \<and> map_of d ''ChangeInfo'' = None \<longrightarrow>
      obtain_request_id res = Inl (KeyError ''ChangeInfo'')"
    by (simp add: obtain_request_id_def)
  have 4: "res = JObj d \<and> map_of d ''ChangeInfo'' = Some (JObj c) \<and> map_of c ''Id'' = None \<longrightarrow>
      obtain_request_id res = Inl (KeyError ''Id'')"
    by (simp add: obtain_request_id_def)
  have 5: "res = JObj d \<and> map_of d ''ResponseMetadata'' = None \<longrightarrow>
      obtain_marshalled_result res = Inl (KeyError ''ResponseMetadata'')"
    by (simp add: obtain_marshalled_result_def)
  have 6: "connect w self = (Inr u, self1) \<and> build_record_set w self1 = (Inr batch, self2) \<and>
    change_record_set w self2 batch = (Inr res, evs1) \<and>
    (change_id_field res = None \<or> field res ''ResponseMetadata'' = None) \<longrightarrow>
      (\<exists>e evs. change_try w self = (Inl e, self2, evs) \<and>
         (\<forall>x \<in> set evs. \<forall>out. x \<noteq> StdoutWrite out) \<and>
         (change_id_field res = None \<longrightarrow> kind_of e = UnexpectedResponseShape)) \<and>
      fst (change w self) = SystemExit 1"
  proof (rule impI, (erule conjE)+)
    assume st: "connect w self = (Inr u, self1)" "build_record_set w self1 = (Inr batch, self2)"
      "change_record_set w self2 batch = (Inr res, evs1)"
      and miss: "change_id_field res = None \<or> field res ''ResponseMetadata'' = None"
    note ct = change_try_stages [OF st]
    from change_record_set_events [OF st(3)] have e1: "\<forall>x \<in> set evs1. \<forall>out. x \<noteq> StdoutWrite out"
      by auto
    have A: "\<exists>e evs. change_try w self = (Inl e, self2, evs) \<and>
         (\<forall>x \<in> set evs. \<forall>out. x \<noteq> StdoutWrite out) \<and>
         (change_id_field res = None \<longrightarrow> kind_of e = UnexpectedResponseShape)"
    proof (cases "obtain_request_id res")
      case (Inl e)
      with ct have c: "change_try w self = (Inl e, self2, evs1)" by simp
      have k: "change_id_field res = None \<longrightarrow> kind_of e = UnexpectedResponseShape"
        using obtain_request_id_missing [of res] Inl by auto
      have "change_try w self = (Inl e, self2, evs1) \<and>
         (\<forall>x \<in> set evs1. \<forall>out. x \<noteq> StdoutWrite out) \<and>
         (change_id_field res = None \<longrightarrow> kind_of e = UnexpectedResponseShape)"
        by (rule conjI [OF c conjI [OF e1 k]])
      then show ?thesis by - (rule exI [of _ e], rule exI [of _ evs1], assumption)
    next
      case (Inr rid)
      have idp: "change_id_field res \<noteq> None"
      proof
        assume "change_id_field res = None"
        from obtain_request_id_missing [OF this] Inr show False by simp
      qed
      with miss have "field res ''ResponseMetadata'' = None" by simp
      from obtain_marshalled_result_missing [OF this] obtain e' where
        m: "obtain_marshalled_result res = Inl e'" by (elim exE conjE)
      obtain r2 evs2 where wt: "wait w self2 rid = (r2, evs2)" by (cases "wait w self2 rid")
      have e2: "\<forall>x \<in> set (evs1 @ evs2). \<forall>out. x \<noteq> StdoutWrite out"
        using wait_no_stdout [OF wt] e1 by (simp add: ball_Un)
      have k: "change_id_field res = None \<longrightarrow> kind_of e = UnexpectedResponseShape" for e
        using idp by auto
      show ?thesis
      proof (cases r2)
        case (Inl e2')
        with ct Inr wt have c: "change_try w self = (Inl e2', self2, evs1 @ evs2)" by simp
        have "change_try w self = (Inl e2', self2, evs1 @ evs2) \<and>
         (\<forall>x \<in> set (evs1 @ evs2). \<forall>out. x \<noteq> StdoutWrite out) \<and>
         (change_id_field res = None \<longrightarrow> kind_of e2' = UnexpectedResponseShape)"
          by (rule conjI [OF c conjI [OF e2 k]])
        then show ?thesis
          by - (rule exI [of _ e2'], rule exI [of _ "evs1 @ evs2"], assumption)
      next
        case (Inr v)
        with ct \<open>obtain_request_id res = Inr rid\<close> wt m
        have c: "change_try w self = (Inl e', self2, evs1 @ evs2)" by simp
        have "change_try w self = (Inl e', self2, evs1 @ evs2) \<and>
         (\<forall>x \<in> set (evs1 @ evs2). \<forall>out. x \<noteq> StdoutWrite out) \<and>
         (change_id_field res = None \<longrightarrow> kind_of e' = UnexpectedResponseShape)"
          by (rule conjI [OF c conjI [OF e2 k]])
        then show ?thesis
          by - (rule exI [of _ e'], rule exI [of _ "evs1 @ evs2"], assumption)
      qed
    qed
    from A obtain e evs where "change_try w self = (Inl e, self2, evs)" by (elim exE conjE)
    then have "fst (change_try w self) = Inl e" by simp
    then have B: "fst (change w self) = SystemExit 1" by (rule change_exit)
    from A B show "(\<exists>e evs. change_try w self = (Inl e, self2, evs) \<and>
         (\<forall>x \<in> set evs. \<forall>out. x \<noteq> StdoutWrite out) \<and>
         (change_id_field res = None \<longrightarrow> kind_of e = UnexpectedResponseShape)) \<and>
      fst (change w self) = SystemExit 1" by (rule conjI)
  qed
  show ?thesis
    by (rule conjI [OF 1 conjI [OF 2 conjI [OF 3 conjI [OF 4 conjI [OF 5 6]]]]])
qed

theorem extraction_failure_fatal_witness:
  "change_id_field shapeless_result = None \<and>
   obtain_request_id shapeless_result = Inl (KeyError ''Id'') \<and>
   field (JObj []) ''ResponseMetadata'' = None \<and>
   obtain_marshalled_result (JObj []) = Inl (KeyError ''ResponseMetadata'') \<and>
   obtain_request_id (JObj []) = Inl (KeyError ''ChangeInfo'') \<and>
   fst (change shapeless_world init) = SystemExit 1"
proof -
  let ?batch = "JObj [(''Changes'', JList [upsert_change])]"
  let ?self2 = "connected\<lparr>rr_skeleton := [(''Changes'', JList [upsert_change])]\<rparr>"
  have s: "shapeless_result =
     JObj [(''ResponseMetadata'', JObj [(''HTTPStatusCode'', JInt 200)]),
           (''ChangeInfo'', JObj [(''Status'', JStr ''PENDING'')])]"
    by (simp add: shapeless_result_def)
  from extraction_failure_fatal [of shapeless_result
      "[(''ResponseMetadata'', JObj [(''HTTPStatusCode'', JInt 200)]),
        (''ChangeInfo'', JObj [(''Status'', JStr ''PENDING'')])]"
      "[(''Status'', JStr ''PENDING'')]" shapeless_world init "()" connected ?batch ?self2
      "[ChangeResourceRecordSets (JStr ''Z123'') ?batch]"]
    stages_shapeless_world s
  have 1: "obtain_request_id shapeless_result = Inl (KeyError ''Id'')
     \<and> fst (change shapeless_world init) = SystemExit 1" by simp
  from extraction_failure_fatal [of "JObj []" "[]"]
  have 2: "obtain_marshalled_result (JObj []) = Inl (KeyError ''ResponseMetadata'')
     \<and> obtain_request_id (JObj []) = Inl (KeyError ''ChangeInfo'')" by simp
  from 1 2 stages_shapeless_world(4) show ?thesis by simp
qed

section \<open>Missing configuration\<close>

text \<open>
  C9, as the code has it: when a required key is absent, fetching it raises NameError
  naming the key, the missing-configuration failure, which is not the validation
  failure ValueError; the run ends in an exception before any submission and exits with
  status 1. The exception of the run is that NameError when the connection was
  established and every check made before the key is fetched passes (the order is:
  action fetched and validated, name fetched, record type fetched and validated, TTL
  validated, value fetched, hosted-zone id fetched).
\<close>
theorem missing_key_failure:
  assumes "k \<in> set required_keys" and "environ w k = None"
  shows "get_env (environ w) k True
           = Inl (NameError (''Cannot find environment variable: '' @ k)) \<and>
    kind_of (NameError (''Cannot find environment variable: '' @ k)) = MissingConfiguration \<and>
    (\<forall>m. kind_of (ValueError m) = InvalidInput) \<and> MissingConfiguration \<noteq> InvalidInput \<and>
    (\<exists>e s'. change_try w self = (Inl e, s', [])) \<and>
    fst (change w self) = SystemExit 1 \<and>
    (fst (connect w self) = Inr () \<and> checks_before w k \<longrightarrow>
       fst (change_try w self)
         = Inl (NameError (''Cannot find environment variable: '' @ k)))"
proof -
  from assms(2) have g: "get_env (environ w) k True
           = Inl (NameError (''Cannot find environment variable: '' @ k))"
    by (simp add: get_env_missing)
  from change_try_missing [OF assms(1) g] have f: "\<exists>e s'. change_try w self = (Inl e, s', [])" .
  then obtain e s' where "change_try w self = (Inl e, s', [])" by (elim exE)
  then have "fst (change_try w self) = Inl e" by simp
  then have x: "fst (change w self) = SystemExit 1" by (rule change_exit)
  have o: "fst (connect w self) = Inr () \<and> checks_before w k \<longrightarrow>
       fst (change_try w self)
         = Inl (NameError (''Cannot find environment variable: '' @ k))"
    using change_try_first_failure [OF assms(1) g] by simp
  from g f x o show ?thesis by simp
qed

theorem missing_key_failure_witness:
  "''INPUT_AWS_ROUTE53_RR_VALUE'' \<in> set required_keys \<and>
   environ no_value_world ''INPUT_AWS_ROUTE53_RR_VALUE'' = None \<and>
   fst (connect no_value_world init) = Inr () \<and>
   checks_before no_value_world ''INPUT_AWS_ROUTE53_RR_VALUE'' \<and>
   fst (change_try no_value_world init) =
     Inl (NameError ''Cannot find environment variable: INPUT_AWS_ROUTE53_RR_VALUE'') \<and>
   fst (change no_value_world init) = SystemExit 1"
proof -
  have k: "''INPUT_AWS_ROUTE53_RR_VALUE'' \<in> set required_keys"
    by (simp add: required_keys_def)
  have e: "environ no_value_world ''INPUT_AWS_ROUTE53_RR_VALUE'' = None"
    by (simp add: no_value_world_def no_value_env_def)
  have c: "fst (connect no_value_world init) = Inr ()"
    by (simp add: connect_def init_def no_value_world_def upsert_world_def)
  have b: "checks_before no_value_world ''INPUT_AWS_ROUTE53_RR_VALUE''"
    by (simp add: checks_eval get_env_def validate_action_def validate_record_type_def
        validate_ttl_def ttl_try_def SUPPORTED_ACTIONS_def SUPPORTED_RECORD_TYPES_def
        DEFAULT_TTL_def py_str_def no_value_world_def no_value_env_def upsert_world_def)
  from missing_key_failure [OF k e, of init] k e c b show ?thesis by simp
qed


text \<open>
  C9 does not hold of every configuration with an absent required key: with the value
  key absent and the action BOGUS, the run fails with the ValueError of the action
  validator, which runs first.
\<close>

theorem missing_key_counterexample:
  "''INPUT_AWS_ROUTE53_RR_VALUE'' \<in> set required_keys \<and>
   environ bogus_world ''INPUT_AWS_ROUTE53_RR_VALUE'' = None \<and>
   fst (change_try bogus_world init) =
     Inl (ValueError ''Unsupported action: BOGUS. Supported actions: CREATE, DELETE, UPSERT'') \<and>
   kind_of (ValueError ''Unsupported action: BOGUS. Supported actions: CREATE, DELETE, UPSERT'')
     = InvalidInput \<and>
   InvalidInput \<noteq> MissingConfiguration"
  by (simp add: pipeline_eval bogus_world_def bogus_env_def upsert_world_def required_keys_def)


text \<open>
  C10, as the code has it: when the value of a required key is the empty string,
  fetching it raises the same NameError as for an absent key, and a required fetch that
  returns never returns an empty value, so no validator is given one. The run ends in an
  exception before any submission and exits with status 1; the exception is that
  NameError when the connection was established and every check made before the key is
  fetched passes. For the action, the first check, an empty string gives the NameError
  and never the ValueError of the validator.
\<close>
theorem empty_value_is_missing:
  assumes "k \<in> set required_keys" and "environ w k = Some []"
  shows "get_env (environ w) k True
           = Inl (NameError (''Cannot find environment variable: '' @ k)) \<and>
    get_env (environ w) k True = get_env ((environ w)(k := None)) k True \<and>
    (\<forall>k' v. get_env (environ w) k' True = Inr v \<longrightarrow> v \<noteq> None \<and> v \<noteq> Some []) \<and>
    (\<exists>e s'. change_try w self = (Inl e, s', [])) \<and>
    fst (change w self) = SystemExit 1 \<and>
    (fst (connect w self) = Inr () \<and> checks_before w k \<longrightarrow>
       fst (change_try w self)
         = Inl (NameError (''Cannot find environment variable: '' @ k))) \<and>
    (k = ''INPUT_AWS_ROUTE53_RR_ACTION'' \<and> fst (connect w self) = Inr () \<longrightarrow>
       fst (change_try w self)
         = Inl (NameError ''Cannot find environment variable: INPUT_AWS_ROUTE53_RR_ACTION'')
       \<and> (\<forall>m. fst (change_try w self) \<noteq> Inl (ValueError m)))"
proof -
  from assms(2) have g: "get_env (environ w) k True
           = Inl (NameError (''Cannot find environment variable: '' @ k))"
    by (simp add: get_env_missing)
  have a: "get_env (environ w) k True = get_env ((environ w)(k := None)) k True"
    using g by (simp add: get_env_required)
  have n: "\<forall>k' v. get_env (environ w) k' True = Inr v \<longrightarrow> v \<noteq> None \<and> v \<noteq> Some []"
    by (auto simp: get_env_required split: if_splits)
  from change_try_missing [OF assms(1) g] have f: "\<exists>e s'. change_try w self = (Inl e, s', [])" .
  then obtain e s' where "change_try w self = (Inl e, s', [])" by (elim exE)
  then have "fst (change_try w self) = Inl e" by simp
  then have x: "fst (change w self) = SystemExit 1" by (rule change_exit)
  have o: "fst (connect w self) = Inr () \<and> checks_before w k \<longrightarrow>
       fst (change_try w self)
         = Inl (NameError (''Cannot find environment variable: '' @ k))"
    using change_try_first_failure [OF assms(1) g] by simp
  have p: "k = ''INPUT_AWS_ROUTE53_RR_ACTION'' \<and> fst (connect w self) = Inr () \<longrightarrow>
       fst (change_try w self)
         = Inl (NameError ''Cannot find environment variable: INPUT_AWS_ROUTE53_RR_ACTION'')
       \<and> (\<forall>m. fst (change_try w self) \<noteq> Inl (ValueError m))"
  proof
    assume h: "k = ''INPUT_AWS_ROUTE53_RR_ACTION'' \<and> fst (connect w self) = Inr ()"
    then have "checks_before w k" by (simp add: checks_before_def)
    with o h have "fst (change_try w self)
         = Inl (NameError (''Cannot find environment variable: '' @ k))" by simp
    with h show "fst (change_try w self)
         = Inl (NameError ''Cannot find environment variable: INPUT_AWS_ROUTE53_RR_ACTION'')
       \<and> (\<forall>m. fst (change_try w self) \<noteq> Inl (ValueError m))" by simp
  qed
  show ?thesis
    by (rule conjI [OF g conjI [OF a conjI [OF n conjI [OF f conjI [OF x conjI [OF o p]]]]]])
qed


theorem empty_value_is_missing_witness:
  "''INPUT_AWS_ROUTE53_RR_ACTION'' \<in> set required_keys \<and>
   environ empty_action_world ''INPUT_AWS_ROUTE53_RR_ACTION'' = Some [] \<and>
   fst (connect empty_action_world init) = Inr () \<and>
   fst (change_try empty_action_world init) =
     Inl (NameError ''Cannot find environment variable: INPUT_AWS_ROUTE53_RR_ACTION'') \<and>
   fst (change empty_action_world init) = SystemExit 1"
proof -
  have k: "''INPUT_AWS_ROUTE53_RR_ACTION'' \<in> set required_keys"
    by (simp add: required_keys_def)
  have e: "environ empty_action_world ''INPUT_AWS_ROUTE53_RR_ACTION'' = Some []"
    by (simp add: empty_action_world_def empty_action_env_def)
  have c: "fst (connect empty_action_world init) = Inr ()"
    by (simp add: connect_def init_def empty_action_world_def upsert_world_def)
  from empty_value_is_missing [OF k e, of init] k e c show ?thesis by simp
qed

text \<open>
  C10 does not hold of every configuration with an empty required value: with an empty
  value key and the TTL abc, the run fails with the ValueError of the TTL validator,
  which runs before the value is fetched.
\<close>

theorem empty_value_counterexample:
  "''INPUT_AWS_ROUTE53_RR_VALUE'' \<in> set required_keys \<and>
   environ bad_ttl_world ''INPUT_AWS_ROUTE53_RR_VALUE'' = Some [] \<and>
   fst (change_try bad_ttl_world init) =
     Inl (ValueError (''Invalid TTL value '' @ sq ''abc''
            @ '': invalid literal for int() with base 10: '' @ sq ''abc'')) \<and>
   kind_of (ValueError (''Invalid TTL value '' @ sq ''abc''
            @ '': invalid literal for int() with base 10: '' @ sq ''abc'')) = InvalidInput \<and>
   InvalidInput \<noteq> MissingConfiguration"
  by (simp add: pipeline_eval bad_ttl_world_def bad_ttl_env_def upsert_world_def required_keys_def
      py_int_eval py_repr_def repr_char_def sq_def)


end
